theory Spec2Isabelle
  imports Complex_Main
begin

section \<open>JavaScript values used by SharedVars.js\<close>

text \<open>
  The primitive values that reach the fields of a peer record and the positional
  arguments of the public methods. A finite number is a rational (the engine only adds 1
  to a number and compares it; 0 and -0 are one value, as they are for \<open>===\<close>, for
  \<open>if\<close> and as a property key), \<open>JNaN\<close> is the number NaN, \<open>JInfinity\<close> and
  \<open>JNegInfinity\<close> are the two infinite numbers, \<open>JFun h\<close> is a reference to a function
  of the embedding application, compared by identity.

  A string is the list of its UTF-16 code units; the strings of the model are those
  whose code units are all below 256, a \<open>char\<close> being the code unit of that number.
\<close>

datatype jsval =
    JUndefined
  | JNull
  | JBool bool
  | JNum rat
  | JNaN
  | JInfinity
  | JNegInfinity
  | JStr string
  | JFun nat

text \<open>A Buffer is its list of bytes.\<close>

type_synonym buffer = "nat list"

text \<open>
  The values a decoded datagram is made of: primitives, Buffers, instances of the
  external class Signature (a reference) and arrays of such values.
\<close>

datatype mval =
    Prim jsval
  | Buf buffer
  | Sig nat
  | Arr "mval list"

text \<open>\<open>typeof v === 'number'\<close>\<close>

fun is_number :: "jsval \<Rightarrow> bool" where
  "is_number (JNum q) = True"
| "is_number JNaN = True"
| "is_number JInfinity = True"
| "is_number JNegInfinity = True"
| "is_number v = False"

text \<open>Truthiness of a primitive, as \<open>if (v)\<close> and \<open>v || w\<close> test it.\<close>

fun truthy :: "jsval \<Rightarrow> bool" where
  "truthy JUndefined = False"
| "truthy JNull = False"
| "truthy (JBool b) = b"
| "truthy (JNum q) = (q \<noteq> 0)"
| "truthy JNaN = False"
| "truthy JInfinity = True"
| "truthy JNegInfinity = True"
| "truthy (JStr s) = (s \<noteq> [])"
| "truthy (JFun h) = True"

text \<open>Every object (Buffer, Signature, array) is truthy.\<close>

fun truthy_m :: "mval \<Rightarrow> bool" where
  "truthy_m (Prim v) = truthy v"
| "truthy_m v = True"

text \<open>\<open>a === b\<close> on primitives and function references: NaN equals nothing.\<close>

definition strict_eq :: "jsval \<Rightarrow> jsval \<Rightarrow> bool" where
  "strict_eq a b = (a = b \<and> a \<noteq> JNaN)"

text \<open>
  The errors the module raises or passes to callbacks. \<open>PeerError m code\<close> is the Error
  built by \<open>_handleErrorResponse\<close>: \<open>m\<close> is the first payload element when it is truthy
  and \<open>None\<close> when the message is the default text "error code: <code>".
\<close>

datatype js_error =
    TypeError
  | ReferenceError
  | NoIdsLeft
  | Timeout
  | PeerError "mval option" jsval

section \<open>Local helpers\<close>

text \<open>A peer record \<open>{address, port}\<close>.\<close>

record rinfo =
  address :: jsval
  port :: jsval

text \<open>
  What the methods accept in the \<open>address\<close> position: a string or a peer record.
  (\<open>send\<close> is also called with no address at all: see \<open>send\<close>.)
\<close>

datatype addr_arg = AString string | ARinfo rinfo

text \<open>\<open>str.lastIndexOf(c)\<close>: the index of the last occurrence, or -1.\<close>

fun lastIndexOf :: "string \<Rightarrow> char \<Rightarrow> int" where
  "lastIndexOf [] c = -1"
| "lastIndexOf (x # xs) c =
     (let r = lastIndexOf xs c in
      if r \<ge> 0 then r + 1 else if x = c then 0 else -1)"

text \<open>\<open>str.substr(start)\<close> and \<open>str.substr(0, len)\<close>, for \<open>start \<ge> 0\<close> and any \<open>len\<close>.\<close>

definition substr_from :: "string \<Rightarrow> int \<Rightarrow> string" where
  "substr_from s start = drop (nat start) s"

definition substr_first :: "string \<Rightarrow> int \<Rightarrow> string" where
  "substr_first s len = take (nat len) s"

text \<open>
  The white space \<open>parseInt\<close> skips (\<open>StrWhiteSpaceChar\<close>), as far as its code unit
  is below 256: TAB, LF, VT, FF, CR, SP and NBSP (U+00A0). The others (U+1680,
  U+2000 to U+200A, U+2028, U+2029, U+202F, U+205F, U+3000, U+FEFF) are no \<open>char\<close>.
\<close>

definition is_space :: "char \<Rightarrow> bool" where
  "is_space c =
     (c \<in> set [CHR 0x09, CHR 0x0A, CHR 0x0B, CHR 0x0C, CHR 0x0D, CHR 0x20, CHR 0xA0])"

definition is_digit :: "char \<Rightarrow> bool" where
  "is_digit c = (c \<in> set ''0123456789'')"

definition digit_val :: "char \<Rightarrow> nat" where
  "digit_val c = of_char c - of_char (CHR ''0'')"

text \<open>The value of a string of decimal digits, most significant digit first.\<close>

fun digits_val :: "nat \<Rightarrow> string \<Rightarrow> nat" where
  "digits_val acc [] = acc"
| "digits_val acc (c # cs) = digits_val (10 * acc + digit_val c) cs"

text \<open>The number of binary digits of a natural number.\<close>

fun bit_length :: "nat \<Rightarrow> nat" where
  "bit_length n = (if n = 0 then 0 else Suc (bit_length (n div 2)))"

declare bit_length.simps [simp del]

text \<open>
  The Number value of a natural number: the nearest double, a tie going to the even
  significand. A number below \<open>2 ^ 53\<close> is a double itself. A larger one keeps its 53
  leading binary digits \<open>q\<close>, rounded by the \<open>e\<close> digits \<open>r\<close> it loses; what rounds to
  \<open>2 ^ 1024\<close> or beyond is \<open>Infinity\<close>.
\<close>

definition to_double :: "nat \<Rightarrow> jsval" where
  "to_double n =
     (if n < 2 ^ 53 then JNum (of_nat n)
      else (let e = bit_length n - 53;
                q = n div 2 ^ e;
                r = n mod 2 ^ e;
                q' = (if 2 ^ e < 2 * r \<or> (2 * r = 2 ^ e \<and> odd q) then q + 1 else q)
            in if 2 ^ 1024 \<le> q' * 2 ^ e then JInfinity else JNum (of_nat (q' * 2 ^ e))))"

text \<open>Unary minus on the numbers \<open>to_double\<close> yields.\<close>

fun negate :: "jsval \<Rightarrow> jsval" where
  "negate (JNum q) = JNum (- q)"
| "negate JInfinity = JNegInfinity"
| "negate JNegInfinity = JInfinity"
| "negate v = JNaN"

text \<open>
  \<open>parseInt(str, 10)\<close>: leading white space is skipped, a sign is read, then the longest
  run of decimal digits; NaN when there is no digit, else the Number value of the
  integer the digits denote, with the sign. (For more than 20 significant digits the
  language lets an implementation round less exactly; Node.js rounds the exact integer.)
\<close>

definition parseInt :: "string \<Rightarrow> jsval" where
  "parseInt s =
     (let t = dropWhile is_space s;
          neg = (case t of [] \<Rightarrow> False | c # r \<Rightarrow> c = CHR ''-'');
          u = (case t of [] \<Rightarrow> [] | c # r \<Rightarrow> if c = CHR ''-'' \<or> c = CHR ''+'' then r else t);
          ds = takeWhile is_digit u
      in if ds = [] then JNaN
         else if neg then negate (to_double (digits_val 0 ds))
         else to_double (digits_val 0 ds))"

text \<open>
  \<^verbatim>\<open>
  function parseRinfo(address, port) {
    if (typeof address !== 'string') return address;
    if (typeof port === 'number') return { address, port };
    const i = address.lastIndexOf(':');
    return { address: parseInt(address.substr(i + 1), 10), port: address.substr(0, i) };
  }
  \<close>
\<close>

fun parseRinfo :: "addr_arg \<Rightarrow> jsval \<Rightarrow> rinfo" where
  "parseRinfo (ARinfo r) p = r"
| "parseRinfo (AString a) p =
     (if is_number p then \<lparr>address = JStr a, port = p\<rparr>
      else (let i = lastIndexOf a (CHR '':'') in
            \<lparr>address = parseInt (substr_from a (i + 1)), port = JStr (substr_first a i)\<rparr>))"

text \<open>
  \<^verbatim>\<open>
  function rinfoEqual(a, b) {
    return (a.address === b.address && a.port === b.port);
  }
  \<close>
\<close>

definition rinfoEqual :: "rinfo \<Rightarrow> rinfo \<Rightarrow> bool" where
  "rinfoEqual a b = (strict_eq (address a) (address b) \<and> strict_eq (port a) (port b))"

section \<open>The engine state\<close>

text \<open>
  A PendingRequest, the object \<open>_genRid\<close> stores in \<open>_rids\<close>:
  \<open>{rinfo, callback, timeout}\<close>. The callback is kept abstract (\<open>'f\<close>): the request
  table never looks inside it, it only calls it. \<open>p_timeout\<close> is the handle
  \<open>setTimeout\<close> returned.
\<close>

record 'f pending =
  p_rinfo :: rinfo
  p_callback :: 'f
  p_timeout :: nat

text \<open>
  \<open>obj.ttl\<close>: the object literal of \<open>_genRid\<close> has no \<open>ttl\<close> property and nothing
  in the module assigns one, so reading it yields \<open>undefined\<close> (\<open>None\<close> here).
\<close>

definition ttl :: "'f pending \<Rightarrow> rat option" where
  "ttl obj = None"

datatype handler = PingHandler

text \<open>An argument passed to a function of the embedding application.\<close>

datatype arg = AVal mval | APeer rinfo

text \<open>
  What the engine does to the outside world, in order:
  \<^item> \<open>SocketSend data p a\<close>: \<open>_socket.send(buf, 0, buf.length, p, a, ...)\<close>, where
    \<open>buf\<close> is the external codec's encoding of the message \<open>data\<close>;
  \<^item> \<open>Call h args\<close>: the application function \<open>h\<close> is called directly with \<open>args\<close>;
  \<^item> \<open>ListenerCall ev h args\<close>: \<open>emit(ev, args)\<close> calls the listener \<open>h\<close>;
  \<^item> \<open>AsyncCallback k\<close>: the per-item completion function that the library
    \<open>async\<close> handed to the iteratee of fan-out \<open>k\<close> is called.
\<close>

datatype effect =
    SocketSend "mval list" jsval jsval
  | Call nat "arg list"
  | ListenerCall string nat "arg list"
  | AsyncCallback nat

text \<open>The SharedVar instance handed to \<open>publish\<close>: the two properties the module reads.\<close>

record sharedVar =
  sv_publicKey :: buffer
  sv_signature :: mval

text \<open>
  The variables a call of \<open>lookup\<close> or \<open>publish\<close> shares with the closures it creates
  (\<open>newPeers\<close> and \<open>latest\<close>, or \<open>errors\<close>).
\<close>

record frame =
  f_newPeers :: "rinfo list"
  f_latest :: mval
  f_errors :: nat

text \<open>
  The fields of a SharedVars instance (\<open>_rids\<close>, \<open>_nextRid\<close>, \<open>_requestTypesMap\<close>,
  \<open>_peers\<close>, \<open>_peersMap\<close>, \<open>_peersVarsMap\<close>, \<open>_varsMap\<close> and the listeners of the
  EventEmitter it extends), then what the runtime holds for it: the timers that are
  armed (handle, with the request id and the callback their closure captured), the
  frames of the fan-outs in progress, and the trace of effects.
\<close>

record 'f engine =
  rids :: "rat \<rightharpoonup> 'f pending"
  nextRid :: rat
  requestTypesMap :: "rat \<rightharpoonup> handler"
  peers :: "rinfo list"
  peersMap :: "string \<rightharpoonup> rinfo"
  peersVarsMap :: "string \<rightharpoonup> rinfo list"
  varsMap :: "string \<rightharpoonup> sharedVar"
  listeners :: "string \<rightharpoonup> nat list"
  timers :: "nat \<rightharpoonup> rat \<times> 'f"
  nextTimer :: nat
  frames :: "nat \<Rightarrow> frame"
  nextFrame :: nat
  out :: "effect list"

definition MSG_TYPE_RESPONSE :: rat where "MSG_TYPE_RESPONSE = 0"
definition MSG_TYPE_PING :: rat where "MSG_TYPE_PING = 1"
definition MSG_TYPE_GET :: rat where "MSG_TYPE_GET = 2"
definition MSG_TYPE_PUBLISH :: rat where "MSG_TYPE_PUBLISH = 3"
definition MSG_TYPE_ERROR_UNKNOWN :: rat where "MSG_TYPE_ERROR_UNKNOWN = -1"
definition RID_MAX :: rat where "RID_MAX = 65535"
definition PUBLIC_ASYNC_LIMIT :: nat where "PUBLIC_ASYNC_LIMIT = 100"

text \<open>
  The constructor; \<open>r\<close> is the value \<open>Math.random()\<close> returned, \<open>0 \<le> r < 1\<close>.
  Only the liveness handler is put into \<open>_requestTypesMap\<close>.
\<close>

definition new_engine :: "rat \<Rightarrow> 'f engine" where
  "new_engine r =
     \<lparr>rids = Map.empty, nextRid = r * RID_MAX,
      requestTypesMap = [MSG_TYPE_PING \<mapsto> PingHandler],
      peers = [], peersMap = Map.empty, peersVarsMap = Map.empty, varsMap = Map.empty,
      listeners = Map.empty, timers = Map.empty, nextTimer = 0,
      frames = (\<lambda>k. \<lparr>f_newPeers = [], f_latest = Prim JNull, f_errors = 0\<rparr>),
      nextFrame = 0, out = []\<rparr>"

section \<open>Request identifiers\<close>

text \<open>\<open>rid = this._nextRid++; if (this._nextRid > RID_MAX) this._nextRid = 0;\<close>\<close>

definition take_rid :: "'f engine \<Rightarrow> rat \<times> 'f engine" where
  "take_rid s =
     (nextRid s, s\<lparr>nextRid := (if nextRid s + 1 > RID_MAX then 0 else nextRid s + 1)\<rparr>)"

text \<open>The loop condition \<open>this._rids[rid] && this._rids[rid].ttl > now\<close>.\<close>

definition still_held :: "rat \<Rightarrow> 'f engine \<Rightarrow> rat \<Rightarrow> bool" where
  "still_held now s rid =
     (case rids s rid of
        None \<Rightarrow> False
      | Some obj \<Rightarrow> (case ttl obj of None \<Rightarrow> False | Some t \<Rightarrow> t > now))"

text \<open>
  \<^verbatim>\<open>
  while (this._rids[rid] && this._rids[rid].ttl > now) {
    rid = this._nextRid++;
    if (this._nextRid > RID_MAX) this._nextRid = 0;
    if (rid === start) throw new Error('No new request ids left');
  }
  return rid;
  \<close>
  The condition never holds (\<open>ttl\<close> is never there), which is also why the loop
  terminates.
\<close>

function scan_rids :: "rat \<Rightarrow> rat \<Rightarrow> rat \<Rightarrow> 'f engine \<Rightarrow> (js_error + rat) \<times> 'f engine" where
  "scan_rids now start rid s =
     (if still_held now s rid
      then (case take_rid s of
              (rid', s') \<Rightarrow> if rid' = start then (Inl NoIdsLeft, s')
                           else scan_rids now start rid' s')
      else (Inr rid, s))"
  by pat_completeness auto
termination
  by (relation "{}") (auto simp: still_held_def ttl_def split: option.splits)

text \<open>\<open>_getNextRid()\<close>; \<open>now\<close> is what \<open>Date.now()\<close> returns.\<close>

definition getNextRid :: "rat \<Rightarrow> 'f engine \<Rightarrow> (js_error + rat) \<times> 'f engine" where
  "getNextRid now s =
     (let start = nextRid s in
      case take_rid s of (rid, s') \<Rightarrow> scan_rids now start rid s')"

text \<open>
  \<^verbatim>\<open>
  _genRid(rinfo, callback) {
    const rid = this._getNextRid();
    const obj = this._rids[rid] = { rinfo, callback,
      timeout: setTimeout(() => { delete this._rids[rid]; obj.callback(new Error('TIMEOUT')); },
                          RID_TIMEOUT) };
    return rid;
  }
  \<close>
\<close>

definition genRid :: "rat \<Rightarrow> rinfo \<Rightarrow> 'f \<Rightarrow> 'f engine \<Rightarrow> (js_error + rat) \<times> 'f engine" where
  "genRid now ri cb s =
     (case getNextRid now s of
        (Inl e, s') \<Rightarrow> (Inl e, s')
      | (Inr rid, s') \<Rightarrow>
          (Inr rid,
           s'\<lparr>rids := (rids s')(rid \<mapsto> \<lparr>p_rinfo = ri, p_callback = cb, p_timeout = nextTimer s'\<rparr>),
              timers := (timers s')(nextTimer s' \<mapsto> (rid, cb)),
              nextTimer := nextTimer s' + 1\<rparr>))"

text \<open>A run of \<open>n\<close> allocations for the same peer with nothing resolved in between.\<close>

fun allocations :: "nat \<Rightarrow> rat \<Rightarrow> rinfo \<Rightarrow> 'f \<Rightarrow> 'f engine \<Rightarrow> (js_error + rat) list \<times> 'f engine" where
  "allocations 0 now ri cb s = ([], s)"
| "allocations (Suc n) now ri cb s =
     (case genRid now ri cb s of
        (res, s') \<Rightarrow> (case allocations n now ri cb s' of (rs, s'') \<Rightarrow> (res # rs, s'')))"

section \<open>Socket and peer methods\<close>

text \<open>
  \<^verbatim>\<open>
  send(data, address, port, callback = port) {
    const buf = this._parser.encode(data);
    const rinfo = parseRinfo(address, port);
    this._socket.send(buf, 0, buf.length, rinfo.port, rinfo.address, callback);
    return this;
  }
  \<close>
  The address is \<open>None\<close> when the caller passes none: \<open>parseRinfo\<close> then returns
  \<open>undefined\<close> and reading \<open>rinfo.port\<close> throws a TypeError before the socket is
  reached. The external codec is taken to encode every message, and the datagram is
  identified with the message it encodes.
\<close>

definition send :: "mval list \<Rightarrow> addr_arg option \<Rightarrow> jsval \<Rightarrow> 'f engine \<Rightarrow> js_error option \<times> 'f engine" where
  "send data a p s =
     (case a of
        None \<Rightarrow> (Some TypeError, s)
      | Some a' \<Rightarrow>
          (let ri = parseRinfo a' p in
           (None, s\<lparr>out := out s @ [SocketSend data (port ri) (address ri)]\<rparr>)))"

text \<open>
  The key \<^verbatim>\<open>`${rinfo.address}:${rinfo.port}`\<close>; \<open>tostr\<close> is the language's conversion
  of a value to a string.
\<close>

definition peer_key :: "(jsval \<Rightarrow> string) \<Rightarrow> rinfo \<Rightarrow> string" where
  "peer_key tostr ri = tostr (address ri) @ '':'' @ tostr (port ri)"

text \<open>\<open>_addPeer\<close> writes \<open>_peersMap\<close> only; \<open>_peers\<close> is left as it is.\<close>

definition addPeer :: "(jsval \<Rightarrow> string) \<Rightarrow> rinfo \<Rightarrow> 'f engine \<Rightarrow> 'f engine" where
  "addPeer tostr ri s =
     (let key = peer_key tostr ri in
      if peersMap s key \<noteq> None then s
      else s\<lparr>peersMap := (peersMap s)(key \<mapsto> \<lparr>address = address ri, port = port ri\<rparr>)\<rparr>)"

definition removePeer :: "(jsval \<Rightarrow> string) \<Rightarrow> rinfo \<Rightarrow> 'f engine \<Rightarrow> 'f engine" where
  "removePeer tostr ri s =
     (let key = peer_key tostr ri in
      if peersMap s key = None then s
      else s\<lparr>peersMap := (peersMap s)(key := None)\<rparr>)"

section \<open>The EventEmitter\<close>

text \<open>\<open>on(ev, h)\<close> appends a listener; \<open>emit(ev, ...args)\<close> calls the listeners of \<open>ev\<close>
  in order and tells whether there was one.\<close>

definition on :: "string \<Rightarrow> nat \<Rightarrow> 'f engine \<Rightarrow> 'f engine" where
  "on ev h s =
     s\<lparr>listeners := (listeners s)(ev \<mapsto> (case listeners s ev of None \<Rightarrow> [] | Some hs \<Rightarrow> hs) @ [h])\<rparr>"

definition emit :: "string \<Rightarrow> arg list \<Rightarrow> 'f engine \<Rightarrow> bool \<times> 'f engine" where
  "emit ev args s =
     (case listeners s ev of
        None \<Rightarrow> (False, s)
      | Some hs \<Rightarrow> (hs \<noteq> [], s\<lparr>out := out s @ map (\<lambda>h. ListenerCall ev h args) hs\<rparr>))"

section \<open>Matching responses to pending requests\<close>

text \<open>
  How a stored callback is run: with the error (or none), the payload (or
  \<open>undefined\<close>, \<open>None\<close>) and the peer (or \<open>undefined\<close>); it returns a value or
  throws, and may change the engine.
\<close>

type_synonym 'f caller =
  "'f \<Rightarrow> js_error option \<Rightarrow> mval list option \<Rightarrow> rinfo option \<Rightarrow> 'f engine
     \<Rightarrow> (js_error + mval) \<times> 'f engine"

text \<open>
  \<^verbatim>\<open>
  _getRidCallback(rid, rinfo) {
    if (!this._rids[rid]) return;
    const obj = this._rids[rid];
    if (!rinfoEqual(obj.rinfo, rinfo)) return;
    return (err, data, rinfo2) => { ... };
  }
  \<close>
  \<open>rid\<close> is a number (the dispatcher has checked it); NaN and the infinite numbers
  are no keys of \<open>_rids\<close>.
  The result is what the returned closure captures, or \<open>None\<close> for \<open>undefined\<close>.
\<close>

definition getRidCallback :: "jsval \<Rightarrow> rinfo \<Rightarrow> 'f engine \<Rightarrow> (rat \<times> 'f pending) option" where
  "getRidCallback rid ri s =
     (case rid of
        JNum q \<Rightarrow>
          (case rids s q of
             None \<Rightarrow> None
           | Some obj \<Rightarrow> if \<not> rinfoEqual (p_rinfo obj) ri then None else Some (q, obj))
      | _ \<Rightarrow> None)"

text \<open>
  The closure \<open>_getRidCallback\<close> returns:
  \<^verbatim>\<open>
  (err, data, rinfo2) => {
    if (obj.callback.call(this, err, data, rinfo2) === true && !err) return;
    clearTimeout(obj.timeout);
    delete this._rids[rid];
  }
  \<close>
  An exception of the callback leaves through it, before the clean-up.
\<close>

definition rid_callback ::
  "'f caller \<Rightarrow> rat \<Rightarrow> 'f pending \<Rightarrow> js_error option \<Rightarrow> mval list option \<Rightarrow> rinfo option
     \<Rightarrow> 'f engine \<Rightarrow> js_error option \<times> 'f engine" where
  "rid_callback call rid obj err data ri2 s =
     (case call (p_callback obj) err data ri2 s of
        (Inl ex, s') \<Rightarrow> (Some ex, s')
      | (Inr v, s') \<Rightarrow>
          if v = Prim (JBool True) \<and> err = None then (None, s')
          else (None, s'\<lparr>timers := (timers s')(p_timeout obj := None),
                         rids := (rids s')(rid := None)\<rparr>))"

definition handleResponse ::
  "'f caller \<Rightarrow> mval list \<Rightarrow> jsval \<Rightarrow> rinfo \<Rightarrow> 'f engine \<Rightarrow> js_error option \<times> 'f engine" where
  "handleResponse call data rid ri s =
     (case getRidCallback rid ri s of
        None \<Rightarrow> (None, s)
      | Some (q, obj) \<Rightarrow> rid_callback call q obj None (Some data) (Some ri) s)"

text \<open>
  \<^verbatim>\<open>
  const err = new Error(data.shift() || (`error code: ${code}`));
  err.code = code;
  callback(err, data, rinfo);
  \<close>
\<close>

definition error_of :: "mval list \<Rightarrow> jsval \<Rightarrow> js_error" where
  "error_of data code =
     PeerError (case data of [] \<Rightarrow> None | x # xs \<Rightarrow> if truthy_m x then Some x else None) code"

definition handleErrorResponse ::
  "'f caller \<Rightarrow> mval list \<Rightarrow> jsval \<Rightarrow> jsval \<Rightarrow> rinfo \<Rightarrow> 'f engine \<Rightarrow> js_error option \<times> 'f engine" where
  "handleErrorResponse call data code rid ri s =
     (case getRidCallback rid ri s of
        None \<Rightarrow> (None, s)
      | Some (q, obj) \<Rightarrow>
          rid_callback call q obj (Some (error_of data code)) (Some (tl data)) (Some ri) s)"

text \<open>
  The function given to \<open>setTimeout\<close> in \<open>_genRid\<close>, run when timer \<open>t\<close> expires:
  \<open>delete this._rids[rid]; obj.callback(new Error('TIMEOUT'));\<close>
\<close>

definition fire_timer :: "'f caller \<Rightarrow> nat \<Rightarrow> 'f engine \<Rightarrow> js_error option \<times> 'f engine" where
  "fire_timer call t s =
     (case timers s t of
        None \<Rightarrow> (None, s)
      | Some (rid, cb) \<Rightarrow>
          (case call cb (Some Timeout) None None
                  (s\<lparr>timers := (timers s)(t := None), rids := (rids s)(rid := None)\<rparr>) of
             (Inl ex, s') \<Rightarrow> (Some ex, s')
           | (Inr v, s') \<Rightarrow> (None, s')))"

section \<open>Dispatching inbound messages\<close>

text \<open>\<open>_pingHandler\<close>: \<open>this.send([MSG_TYPE_RESPONSE, rid], rinfo)\<close>\<close>

definition pingHandler :: "mval list \<Rightarrow> jsval \<Rightarrow> rinfo \<Rightarrow> 'f engine \<Rightarrow> js_error option \<times> 'f engine" where
  "pingHandler data rid ri s =
     send [Prim (JNum MSG_TYPE_RESPONSE), Prim rid] (Some (ARinfo ri)) JUndefined s"

fun run_handler :: "handler \<Rightarrow> mval list \<Rightarrow> jsval \<Rightarrow> rinfo \<Rightarrow> 'f engine \<Rightarrow> js_error option \<times> 'f engine" where
  "run_handler PingHandler data rid ri s = pingHandler data rid ri s"

text \<open>
  \<^verbatim>\<open>
  _handleRequest(data, type, rid, rinfo) {
    if (!this._requestTypesMap[type]) {
      this.send([MSG_TYPE_ERROR_UNKNOWN, rid, 'Unknown request type'], rinfo);
      return;
    }
    const handler = this._requestTypesMap[type];
    handler.call(this, data, rid, rinfo);
  }
  \<close>
\<close>

definition handleRequest ::
  "mval list \<Rightarrow> jsval \<Rightarrow> jsval \<Rightarrow> rinfo \<Rightarrow> 'f engine \<Rightarrow> js_error option \<times> 'f engine" where
  "handleRequest data type rid ri s =
     (case (case type of JNum t \<Rightarrow> requestTypesMap s t | _ \<Rightarrow> None) of
        None \<Rightarrow>
          send [Prim (JNum MSG_TYPE_ERROR_UNKNOWN), Prim rid, Prim (JStr ''Unknown request type'')]
               (Some (ARinfo ri)) JUndefined s
      | Some h \<Rightarrow> run_handler h data rid ri s)"

text \<open>The element when \<open>typeof\<close> it is \<open>'number'\<close>.\<close>

fun as_number :: "mval \<Rightarrow> jsval option" where
  "as_number (Prim v) = (if is_number v then Some v else None)"
| "as_number v = None"

text \<open>
  \<^verbatim>\<open>
  _handleMessage(data, rinfo) {
    if (!Array.isArray(data) || data.length < 2) return;
    const type = data.shift();
    const rid = data.shift();
    if (typeof type !== 'number' || typeof rid !== 'number') return;
    if (type === MSG_TYPE_RESPONSE) { this._handleResponse(data, rid, rinfo); }
    else if (type > MSG_TYPE_RESPONSE) { this._handleRequest(data, type, rid, rinfo); }
    else if (type < MSG_TYPE_RESPONSE) { this._handleErrorResponse(data, type, rid, rinfo); }
  }
  \<close>
\<close>

definition handleMessage :: "'f caller \<Rightarrow> mval \<Rightarrow> rinfo \<Rightarrow> 'f engine \<Rightarrow> js_error option \<times> 'f engine" where
  "handleMessage call data ri s =
     (case data of
        Arr (t # r # payload) \<Rightarrow>
          (case (as_number t, as_number r) of
             (Some type, Some rid) \<Rightarrow>
               (case type of
                  JNum q \<Rightarrow>
                    if q = MSG_TYPE_RESPONSE then handleResponse call payload rid ri s
                    else if q > MSG_TYPE_RESPONSE then handleRequest payload type rid ri s
                    else handleErrorResponse call payload type rid ri s
                | JInfinity \<Rightarrow> handleRequest payload type rid ri s
                | JNegInfinity \<Rightarrow> handleErrorResponse call payload type rid ri s
                | _ \<Rightarrow> (None, s))
           | _ \<Rightarrow> (None, s))
      | _ \<Rightarrow> (None, s))"

text \<open>
  The instance method \<open>decode(...args) { this._parser.decode.apply(this._parser, args); }\<close>
  has no \<open>return\<close>: whatever the codec's \<open>parser_decode\<close> yields, the method yields
  \<open>undefined\<close>, unless the codec throws.
\<close>

definition decode :: "(buffer \<Rightarrow> js_error + mval) \<Rightarrow> buffer \<Rightarrow> js_error + mval" where
  "decode parser_decode buf =
     (case parser_decode buf of Inl e \<Rightarrow> Inl e | Inr v \<Rightarrow> Inr (Prim JUndefined))"

text \<open>
  \<open>self.decode(buf)\<close> in the 'message' handler of \<open>_initSocket\<close>. The handler is an
  arrow function: it sees \<open>this\<close>, its parameters \<open>buf\<close> and \<open>rinfo\<close>, its local
  \<open>data\<close>, the parameter \<open>socket\<close> and the declarations of the module. No \<open>self\<close> is
  declared anywhere in the module and Node.js defines no global of that name, so
  evaluating the identifier throws a ReferenceError before any method is called.
\<close>

definition self_decode :: "buffer \<Rightarrow> js_error + mval" where
  "self_decode buf = Inl ReferenceError"

text \<open>
  \<^verbatim>\<open>
  socket.on('message', (buf, rinfo) => {
    let data;
    try { data = self.decode(buf); } catch (err) { return; }
    this.emit('message', data, rinfo);
    this._handleMessage(data, rinfo);
  });
  \<close>
\<close>

definition on_message :: "'f caller \<Rightarrow> buffer \<Rightarrow> rinfo \<Rightarrow> 'f engine \<Rightarrow> js_error option \<times> 'f engine" where
  "on_message call buf ri s =
     (case self_decode buf of
        Inl err \<Rightarrow> (None, s)
      | Inr data \<Rightarrow>
          handleMessage call data ri (snd (emit ''message'' [AVal data, APeer ri] s)))"

section \<open>Protocol methods\<close>

text \<open>
  The functions the module itself registers with \<open>_genRid\<close>, each with the variables
  it captures, and \<open>HostClosure h\<close> for a function that other code hands to \<open>_genRid\<close>.
\<close>

datatype closure =
    ConnectClosure rinfo jsval
  | LookupClosure nat rinfo buffer
  | PublishClosure nat
  | HostClosure nat

text \<open>The external class Signature, as far as \<open>lookup\<close> uses an instance of it.\<close>

record sig_api =
  sig_publicKey :: "nat \<Rightarrow> buffer"
  sig_verify :: "nat \<Rightarrow> bool"
  sig_betterThen :: "nat \<Rightarrow> mval \<Rightarrow> bool"

text \<open>
  Calling the caller's \<open>callback\<close>: a TypeError unless it is a function. What the
  application function does in turn is outside the module; the call is recorded.
\<close>

definition call_user :: "jsval \<Rightarrow> arg list \<Rightarrow> 'f engine \<Rightarrow> js_error option \<times> 'f engine" where
  "call_user f args s =
     (case f of
        JFun h \<Rightarrow> (None, s\<lparr>out := out s @ [Call h args]\<rparr>)
      | _ \<Rightarrow> (Some TypeError, s))"

definition data_arg :: "mval list option \<Rightarrow> arg" where
  "data_arg data = (case data of None \<Rightarrow> AVal (Prim JUndefined) | Some xs \<Rightarrow> AVal (Arr xs))"

text \<open>
  The closure of \<open>connect\<close>:
  \<^verbatim>\<open>
  (err, data) => {
    if (err) { this._removePeer(rinfo); } else { this._addPeer(rinfo); }
    if (callback) callback.call(this, null, data, rinfo);
  }
  \<close>
\<close>

definition connect_closure ::
  "(jsval \<Rightarrow> string) \<Rightarrow> rinfo \<Rightarrow> jsval \<Rightarrow> js_error option \<Rightarrow> mval list option \<Rightarrow> 'f engine
     \<Rightarrow> (js_error + mval) \<times> 'f engine" where
  "connect_closure tostr ri callback err data s =
     (let s1 = (if err \<noteq> None then removePeer tostr ri s else addPeer tostr ri s) in
      if truthy callback
      then (case call_user callback [AVal (Prim JNull), data_arg data, APeer ri] s1 of
              (Some e, s2) \<Rightarrow> (Inl e, s2)
            | (None, s2) \<Rightarrow> (Inr (Prim JUndefined), s2))
      else (Inr (Prim JUndefined), s1))"

text \<open>
  \<open>callback()\<close> inside an iteratee's closure: the completion function of the library
  \<open>async\<close> for fan-out \<open>k\<close>. What the library does then is not part of the module.
\<close>

definition async_callback :: "nat \<Rightarrow> 'f engine \<Rightarrow> (js_error + mval) \<times> 'f engine" where
  "async_callback k s = (Inr (Prim JUndefined), s\<lparr>out := out s @ [AsyncCallback k]\<rparr>)"

text \<open>
  The closure of \<open>lookup\<close> for one peer:
  \<^verbatim>\<open>
  (err, data) => {
    if (err || !data.length) return callback();
    const sig = data[0];
    if (!(sig instanceof Signature) || !sig.publicKey.equals(publicKey) || !sig.verify())
      return callback();
    if (!latest || sig.betterThen(latest)) { latest = sig; }
    newPeers.push(peer);
    callback();
  }
  \<close>
\<close>

definition lookup_closure ::
  "sig_api \<Rightarrow> nat \<Rightarrow> rinfo \<Rightarrow> buffer \<Rightarrow> js_error option \<Rightarrow> mval list option \<Rightarrow> 'f engine
     \<Rightarrow> (js_error + mval) \<times> 'f engine" where
  "lookup_closure sg k peer publicKey err data s =
     (if err \<noteq> None then async_callback k s
      else (case data of
              None \<Rightarrow> (Inl TypeError, s)
            | Some [] \<Rightarrow> async_callback k s
            | Some (Sig h # rest) \<Rightarrow>
                if sig_publicKey sg h \<noteq> publicKey \<or> \<not> sig_verify sg h then async_callback k s
                else (let fr = frames s k;
                          latest = (if \<not> truthy_m (f_latest fr) \<or> sig_betterThen sg h (f_latest fr)
                                    then Sig h else f_latest fr)
                      in async_callback k
                           (s\<lparr>frames := (frames s)
                                 (k := fr\<lparr>f_latest := latest, f_newPeers := f_newPeers fr @ [peer]\<rparr>)\<rparr>))
            | Some (v # rest) \<Rightarrow> async_callback k s))"

text \<open>The closure of \<open>publish\<close>: \<open>(err) => { if (err) errors++; callback(); }\<close>\<close>

definition publish_closure ::
  "nat \<Rightarrow> js_error option \<Rightarrow> 'f engine \<Rightarrow> (js_error + mval) \<times> 'f engine" where
  "publish_closure k err s =
     async_callback k
       (if err \<noteq> None
        then s\<lparr>frames := (frames s)(k := (frames s k)\<lparr>f_errors := f_errors (frames s k) + 1\<rparr>)\<rparr>
        else s)"

text \<open>Running a registered closure; \<open>host\<close> runs the functions of other code.\<close>

definition call_closure ::
  "(jsval \<Rightarrow> string) \<Rightarrow> sig_api
     \<Rightarrow> (nat \<Rightarrow> js_error option \<Rightarrow> mval list option \<Rightarrow> rinfo option \<Rightarrow> closure engine
           \<Rightarrow> (js_error + mval) \<times> closure engine)
     \<Rightarrow> closure caller" where
  "call_closure tostr sg host c err data ri2 s =
     (case c of
        ConnectClosure ri callback \<Rightarrow> connect_closure tostr ri callback err data s
      | LookupClosure k peer publicKey \<Rightarrow> lookup_closure sg k peer publicKey err data s
      | PublishClosure k \<Rightarrow> publish_closure k err s
      | HostClosure h \<Rightarrow> host h err data ri2 s)"

text \<open>
  \<^verbatim>\<open>
  connect(address, port, callback = port) {
    const rinfo = parseRinfo(address, port);
    const rid = this._genRid(rinfo, (err, data) => { ... });
    this.send([MSG_TYPE_PING, rid], rinfo);
  }
  \<close>
  The default \<open>callback = port\<close> applies when the third argument is \<open>undefined\<close>.
\<close>

definition connect ::
  "rat \<Rightarrow> addr_arg \<Rightarrow> jsval \<Rightarrow> jsval \<Rightarrow> closure engine \<Rightarrow> js_error option \<times> closure engine" where
  "connect now a p cb s =
     (let callback = (if cb = JUndefined then p else cb);
          ri = parseRinfo a p
      in case genRid now ri (ConnectClosure ri callback) s of
           (Inl e, s1) \<Rightarrow> (Some e, s1)
         | (Inr rid, s1) \<Rightarrow>
             send [Prim (JNum MSG_TYPE_PING), Prim (JNum rid)] (Some (ARinfo ri)) JUndefined s1)"

text \<open>\<open>buffer.toString('hex')\<close>\<close>

definition hex_digit :: "nat \<Rightarrow> char" where
  "hex_digit n = ''0123456789abcdef'' ! (n mod 16)"

definition toHex :: "buffer \<Rightarrow> string" where
  "toHex b = concat (map (\<lambda>x. [hex_digit (x div 16), hex_digit x]) b)"

text \<open>
  \<open>async.eachLimit(items, limit, iteratee, done)\<close> with items: the library calls the
  iteratee on the first items, at most \<open>limit\<close> of them, before it returns (\<open>limit\<close>
  counts the calls still allowed); an exception of the iteratee leaves through it. (With
  no item it calls \<open>done\<close> at once: see \<open>lookup\<close> and \<open>publish\<close>.)
\<close>

fun eachLimit_launch ::
  "nat \<Rightarrow> ('a \<Rightarrow> 's \<Rightarrow> js_error option \<times> 's) \<Rightarrow> 'a list \<Rightarrow> 's \<Rightarrow> js_error option \<times> 's" where
  "eachLimit_launch limit f [] s = (None, s)"
| "eachLimit_launch limit f (x # xs) s =
     (if limit = 0 then (None, s)
      else (case f x s of
              (Some e, s') \<Rightarrow> (Some e, s')
            | (None, s') \<Rightarrow> eachLimit_launch (limit - 1) f xs s'))"

text \<open>
  The iteratee of \<open>lookup\<close>:
  \<open>const rid = this._genRid(peer, ...); this.send([MSG_TYPE_GET, rid, publicKey]);\<close>
  The call of \<open>send\<close> names no destination.
\<close>

definition lookup_iteratee ::
  "rat \<Rightarrow> nat \<Rightarrow> buffer \<Rightarrow> rinfo \<Rightarrow> closure engine \<Rightarrow> js_error option \<times> closure engine" where
  "lookup_iteratee now k publicKey peer s =
     (case genRid now peer (LookupClosure k peer publicKey) s of
        (Inl e, s1) \<Rightarrow> (Some e, s1)
      | (Inr rid, s1) \<Rightarrow>
          send [Prim (JNum MSG_TYPE_GET), Prim (JNum rid), Buf publicKey] None JUndefined s1)"

text \<open>
  The function \<open>lookup\<close> gives to \<open>async\<close> to call at the end:
  \<open>this._peersVarsMap[key] = newPeers; if (!callback) return; callback(null, latest);\<close>
\<close>

definition lookup_done ::
  "string \<Rightarrow> nat \<Rightarrow> jsval \<Rightarrow> 'f engine \<Rightarrow> js_error option \<times> 'f engine" where
  "lookup_done key k callback s =
     (let s1 = s\<lparr>peersVarsMap := (peersVarsMap s)(key \<mapsto> f_newPeers (frames s k))\<rparr> in
      if \<not> truthy callback then (None, s1)
      else call_user callback [AVal (Prim JNull), AVal (f_latest (frames s k))] s1)"

text \<open>
  \<^verbatim>\<open>
  lookup(publicKey, currentSig, callback) {
    const key = publicKey.toString(BUFFER_ENCODING);
    let peers = this._peersVarsMap[key];
    if (!peers) peers = this._peers;
    const newPeers = [];
    let latest = currentSig || null;
    async.eachLimit(peers, PUBLIC_ASYNC_LIMIT, (peer, callback) => { ... }, () => { ... });
    return this;
  }
  \<close>
\<close>

definition lookup ::
  "rat \<Rightarrow> buffer \<Rightarrow> mval \<Rightarrow> jsval \<Rightarrow> closure engine \<Rightarrow> js_error option \<times> closure engine" where
  "lookup now publicKey currentSig callback s =
     (let key = toHex publicKey;
          ps = (case peersVarsMap s key of None \<Rightarrow> peers s | Some l \<Rightarrow> l);
          k = nextFrame s;
          s0 = s\<lparr>frames := (frames s)
                   (k := \<lparr>f_newPeers = [],
                          f_latest = (if truthy_m currentSig then currentSig else Prim JNull),
                          f_errors = 0\<rparr>),
                 nextFrame := k + 1\<rparr>
      in if ps = [] then lookup_done key k callback s0
         else eachLimit_launch PUBLIC_ASYNC_LIMIT (lookup_iteratee now k publicKey) ps s0)"

text \<open>
  The iteratee of \<open>publish\<close>:
  \<open>const rid = this._genRid(peer, ...); this.send([MSG_TYPE_PUBLISH, rid, sharedVar.signature]);\<close>
\<close>

definition publish_iteratee ::
  "rat \<Rightarrow> nat \<Rightarrow> sharedVar \<Rightarrow> rinfo \<Rightarrow> closure engine \<Rightarrow> js_error option \<times> closure engine" where
  "publish_iteratee now k sv peer s =
     (case genRid now peer (PublishClosure k) s of
        (Inl e, s1) \<Rightarrow> (Some e, s1)
      | (Inr rid, s1) \<Rightarrow>
          send [Prim (JNum MSG_TYPE_PUBLISH), Prim (JNum rid), sv_signature sv] None JUndefined s1)"

text \<open>\<open>if (!callback) return; callback(null, peers.length - errors);\<close>\<close>

definition publish_done ::
  "rinfo list \<Rightarrow> nat \<Rightarrow> jsval \<Rightarrow> 'f engine \<Rightarrow> js_error option \<times> 'f engine" where
  "publish_done ps k callback s =
     (if \<not> truthy callback then (None, s)
      else call_user callback
             [AVal (Prim JNull),
              AVal (Prim (JNum (of_nat (length ps) - of_nat (f_errors (frames s k)))))] s)"

text \<open>
  \<^verbatim>\<open>
  publish(sharedVar, callback) {
    const key = sharedVar.publicKey.toString(BUFFER_ENCODING);
    this._varsMap[key] = sharedVar;
    if (!this._peersVarsMap[key]) return this;
    const peers = this._peersVarsMap[key];
    let errors = 0;
    async.eachLimit(peers, PUBLIC_ASYNC_LIMIT, (peer, callback) => { ... }, () => { ... });
    return this;
  }
  \<close>
\<close>

definition publish ::
  "rat \<Rightarrow> sharedVar \<Rightarrow> jsval \<Rightarrow> closure engine \<Rightarrow> js_error option \<times> closure engine" where
  "publish now sv callback s =
     (let key = toHex (sv_publicKey sv);
          s1 = s\<lparr>varsMap := (varsMap s)(key \<mapsto> sv)\<rparr>
      in case peersVarsMap s1 key of
           None \<Rightarrow> (None, s1)
         | Some ps \<Rightarrow>
             (let k = nextFrame s1;
                  s2 = s1\<lparr>frames := (frames s1)
                             (k := \<lparr>f_newPeers = [], f_latest = Prim JNull, f_errors = 0\<rparr>),
                          nextFrame := k + 1\<rparr>
              in if ps = [] then publish_done ps k callback s2
                 else eachLimit_launch PUBLIC_ASYNC_LIMIT (publish_iteratee now k sv) ps s2))"

text \<open>
  \<open>onPublish(publicKey, listener)\<close>:
  \<open>this.on(publicKey.toString(BUFFER_ENCODING), listener)\<close>
\<close>

definition onPublish :: "buffer \<Rightarrow> nat \<Rightarrow> 'f engine \<Rightarrow> 'f engine" where
  "onPublish publicKey listener s = on (toHex publicKey) listener s"

section \<open>Example values\<close>

text \<open>Two peers, as the transport reports them.\<close>

definition peer1 :: rinfo where
  "peer1 = \<lparr>address = JStr ''10.0.0.1'', port = JNum 4000\<rparr>"

definition peer2 :: rinfo where
  "peer2 = \<lparr>address = JStr ''10.0.0.2'', port = JNum 4000\<rparr>"

text \<open>
  Callbacks named by a number: each records that it was called; callback 7 returns
  \<open>true\<close>, every other one returns \<open>undefined\<close>.
\<close>

definition noting_call :: "nat caller" where
  "noting_call h err data ri s =
     (Inr (Prim (if h = 7 then JBool True else JUndefined)),
      s\<lparr>out := out s @ [Call h [data_arg data]]\<rparr>)"

text \<open>A new engine after one \<open>_genRid(peer1, h)\<close>: request 0 is pending, timer 0 is armed.\<close>

definition one_pending :: "nat \<Rightarrow> nat engine" where
  "one_pending h = snd (genRid 0 peer1 h (new_engine 0))"

text \<open>A way of running callbacks in which every callback returns \<open>undefined\<close> at once.\<close>

definition silent_call :: "'f caller" where
  "silent_call cb err data ri s = (Inr (Prim JUndefined), s)"

text \<open>
  The surroundings of the engine in the examples: the string conversion on the values the
  examples use, a Signature class whose instances all belong to the key \<open>ab cd\<close> and
  verify, and no function of other code registered with \<open>_genRid\<close>.
\<close>

definition example_tostr :: "jsval \<Rightarrow> string" where
  "example_tostr v =
     (case v of JStr s \<Rightarrow> s | JNum q \<Rightarrow> (if q = 4000 then ''4000'' else ''0'') | _ \<Rightarrow> ''undefined'')"

definition example_sig :: sig_api where
  "example_sig = \<lparr>sig_publicKey = (\<lambda>h. [171, 205]), sig_verify = (\<lambda>h. True),
                   sig_betterThen = (\<lambda>h m. True)\<rparr>"

definition example_call :: "closure caller" where
  "example_call = call_closure example_tostr example_sig (\<lambda>h err data ri s. (Inr (Prim JUndefined), s))"

text \<open>
  A new engine after \<open>connect('10.0.0.1', 4000, f3)\<close>: the PING with request id 0 is
  out, timer 0 is armed.
\<close>

definition pinging :: "closure engine" where
  "pinging = snd (connect 0 (AString ''10.0.0.1'') (JNum 4000) (JFun 3) (new_engine 0))"

text \<open>A signed variable for the key \<open>ab cd\<close>.\<close>

definition held_var :: sharedVar where
  "held_var = \<lparr>sv_publicKey = [171, 205], sv_signature = Sig 1\<rparr>"

text \<open>A codec that decodes every datagram to a PING request with id 5.\<close>

definition ping_codec :: "buffer \<Rightarrow> js_error + mval" where
  "ping_codec buf = Inr (Arr [Prim (JNum MSG_TYPE_PING), Prim (JNum 5)])"

text \<open>The calls of listeners in a trace.\<close>

definition listener_calls :: "effect list \<Rightarrow> effect list" where
  "listener_calls es = filter (\<lambda>e. case e of ListenerCall ev h args \<Rightarrow> True | _ \<Rightarrow> False) es"

section \<open>Properties of the request identifiers\<close>

text \<open>The loop condition of \<open>_getNextRid\<close> is false in every state.\<close>

lemma still_held_never: "still_held now s rid = False"
  by (simp add: still_held_def ttl_def split: option.splits)

text \<open>So \<open>_getNextRid\<close> returns the counter as it stands, whatever \<open>_rids\<close> holds.\<close>

lemma getNextRid_eq:
  "getNextRid now s =
     (Inr (nextRid s), s\<lparr>nextRid := (if nextRid s + 1 > RID_MAX then 0 else nextRid s + 1)\<rparr>)"
  by (simp add: getNextRid_def take_rid_def still_held_never)

lemma genRid_eq:
  "genRid now ri cb s =
     (Inr (nextRid s),
      s\<lparr>nextRid := (if nextRid s + 1 > RID_MAX then 0 else nextRid s + 1),
        rids := (rids s)(nextRid s \<mapsto> \<lparr>p_rinfo = ri, p_callback = cb, p_timeout = nextTimer s\<rparr>),
        timers := (timers s)(nextTimer s \<mapsto> (nextRid s, cb)),
        nextTimer := nextTimer s + 1\<rparr>)"
  by (simp add: genRid_def getNextRid_eq)

lemma next_after_integer:
  assumes "k \<le> 65535"
  shows "(if RID_MAX < rat_of_nat k + 1 then 0 else rat_of_nat k + 1) = rat_of_nat (Suc k mod 65536)"
proof (cases "k = 65535")
  case True
  then show ?thesis by (simp add: RID_MAX_def)
next
  case False
  with assms have lt: "k < 65535" by simp
  then have m: "Suc k mod 65536 = Suc k" by simp
  from lt have "Suc k \<le> 65535" by simp
  then have "rat_of_nat (Suc k) \<le> rat_of_nat 65535" by (simp only: of_nat_le_iff)
  then have "\<not> RID_MAX < rat_of_nat k + 1" by (simp add: RID_MAX_def)
  then show ?thesis by (simp add: m add.commute)
qed

lemma allocations_ids:
  "nextRid s = of_nat k \<Longrightarrow> k \<le> 65535 \<Longrightarrow>
   fst (allocations n now ri cb s) = map (\<lambda>i. Inr (of_nat ((k + i) mod 65536))) [0..<n]"
proof (induction n arbitrary: s k)
  case 0
  then show ?case by simp
next
  case (Suc n)
  let ?s' = "snd (genRid now ri cb s)"
  have "nextRid ?s' = (if RID_MAX < rat_of_nat k + 1 then 0 else rat_of_nat k + 1)"
    by (simp add: genRid_eq Suc.prems(1))
  then have nx: "nextRid ?s' = of_nat (Suc k mod 65536)"
    by (simp only: next_after_integer [OF Suc.prems(2)])
  have "Suc k mod 65536 \<le> 65535" by simp
  from Suc.IH [OF nx this]
  have tl: "fst (allocations n now ri cb ?s')
              = map (\<lambda>i. Inr (of_nat ((Suc k mod 65536 + i) mod 65536))) [0..<n]" .
  have shift: "map (\<lambda>i. (Inr (of_nat ((Suc k mod 65536 + i) mod 65536)) :: js_error + rat)) [0..<n]
             = map (\<lambda>i. Inr (of_nat ((k + i) mod 65536))) [Suc 0..<Suc n]"
    by (simp add: map_Suc_upt [symmetric] mod_add_left_eq del: upt_Suc)
  have hd: "fst (genRid now ri cb s) = Inr (of_nat (k mod 65536))"
    using Suc.prems by (simp add: genRid_eq)
  have "fst (allocations (Suc n) now ri cb s)
          = fst (genRid now ri cb s) # fst (allocations n now ri cb ?s')"
    by (simp add: split_beta)
  also have "\<dots> = map (\<lambda>i. Inr (of_nat ((k + i) mod 65536))) (0 # [Suc 0..<Suc n])"
    by (simp add: hd tl shift del: upt_Suc)
  also have "0 # [Suc 0..<Suc n] = [0..<Suc n]"
    by (simp add: upt_conv_Cons del: upt_Suc)
  finally show ?case .
qed

lemma genRid_keeps_entries: "dom (rids s) \<subseteq> dom (rids (snd (genRid now ri cb s)))"
  by (auto simp: genRid_eq)

lemma allocations_keep_entries:
  "dom (rids s) \<subseteq> dom (rids (snd (allocations n now ri cb s)))"
proof (induction n arbitrary: s)
  case 0
  then show ?case by simp
next
  case (Suc n)
  have "dom (rids s) \<subseteq> dom (rids (snd (genRid now ri cb s)))"
    by (rule genRid_keeps_entries)
  also have "\<dots> \<subseteq> dom (rids (snd (allocations n now ri cb (snd (genRid now ri cb s)))))"
    by (rule Suc.IH)
  finally show ?case by (simp add: split_beta)
qed

lemma allocations_first_held:
  "0 < n \<Longrightarrow> nextRid s \<in> dom (rids (snd (allocations n now ri cb s)))"
proof (cases n)
  case 0
  assume "0 < n" with 0 show ?thesis by simp
next
  case (Suc m)
  have "nextRid s \<in> dom (rids (snd (genRid now ri cb s)))"
    by (simp add: genRid_eq)
  then have "nextRid s \<in> dom (rids (snd (allocations m now ri cb (snd (genRid now ri cb s)))))"
    by (rule subsetD [OF allocations_keep_entries])
  then show ?thesis using Suc by (simp add: split_beta)
qed

text \<open>
  C1. The claim: in a run of allocations with nothing resolved in between, no identifier
  is handed out while a PendingRequest still holds it, and once every identifier of
  0..65535 has been scanned without a free one the allocation fails. The code does
  neither. Take any engine at the moment its counter is 0 (a new engine whose random
  offset is 0, or any engine whose counter has just wrapped around): 65537 allocations
  in a row all succeed; the first and the last both return 0, although after the first
  65536 the entry for 0 is still in \<open>_rids\<close>; no allocation fails.
\<close>

theorem allocation_reuses_held_identifier:
  "fst (allocations 65537 now ri cb (s\<lparr>nextRid := 0\<rparr>)) ! 0 = Inr 0
   \<and> fst (allocations 65537 now ri cb (s\<lparr>nextRid := 0\<rparr>)) ! 65536 = Inr 0
   \<and> Inl NoIdsLeft \<notin> set (fst (allocations 65537 now ri cb (s\<lparr>nextRid := 0\<rparr>)))
   \<and> rids (snd (allocations 65536 now ri cb (s\<lparr>nextRid := 0\<rparr>))) 0 \<noteq> None
   \<and> new_engine 0 = (new_engine 0 :: 'f engine)\<lparr>nextRid := 0\<rparr>"
proof -
  let ?s = "s\<lparr>nextRid := 0\<rparr>"
  have z: "nextRid ?s = of_nat 0" by simp
  have ids: "fst (allocations 65537 now ri cb ?s)
               = map (\<lambda>i. Inr (of_nat ((0 + i) mod 65536))) [0..<65537]"
    by (rule allocations_ids [OF z]) simp
  have a: "fst (allocations 65537 now ri cb ?s) ! 0 = Inr 0"
    unfolding ids by (subst nth_map) (simp_all del: upt_Suc)
  have b: "fst (allocations 65537 now ri cb ?s) ! 65536 = Inr 0"
    unfolding ids by (subst nth_map) (simp_all del: upt_Suc)
  have c: "Inl NoIdsLeft \<notin> set (fst (allocations 65537 now ri cb ?s))"
    unfolding ids by (auto simp del: upt_Suc)
  have "nextRid ?s \<in> dom (rids (snd (allocations 65536 now ri cb ?s)))"
    by (rule allocations_first_held) simp
  then have d: "rids (snd (allocations 65536 now ri cb ?s)) 0 \<noteq> None"
    by auto
  have e: "new_engine 0 = (new_engine 0 :: 'f engine)\<lparr>nextRid := 0\<rparr>"
    by (simp add: new_engine_def)
  from a b c d e show ?thesis by (intro conjI)
qed

section \<open>Properties of the address parser\<close>

lemma lastIndexOf_absent: "c \<notin> set p \<Longrightarrow> lastIndexOf p c = -1"
  by (induction p) (auto simp: Let_def)

lemma lastIndexOf_last: "c \<notin> set p \<Longrightarrow> lastIndexOf (a @ c # p) c = int (length a)"
  by (induction a) (auto simp: Let_def lastIndexOf_absent)

text \<open>The Number value of a natural number: exact below \<open>2 ^ 53\<close>, the nearest
  multiple of \<open>2 ^ e\<close> with a 53-digit significand above, \<open>Infinity\<close> from
  \<open>2 ^ 1024\<close> on.\<close>

lemma bit_length_bounds:
  "0 < n \<Longrightarrow> 2 ^ (bit_length n - 1) \<le> n \<and> n < 2 ^ bit_length n"
proof (induction n rule: bit_length.induct)
  case (1 n)
  show ?case
  proof (cases "n div 2 = 0")
    case True
    with "1.prems" have "n = 1" by (simp add: div_eq_0_iff) 
    then show ?thesis by (simp add: bit_length.simps)
  next
    case False
    then have pos: "0 < n div 2" by simp
    from "1.prems" have n0: "n \<noteq> 0" by simp
    from "1.IH" [OF n0 pos]
    have lo: "2 ^ (bit_length (n div 2) - 1) \<le> n div 2" and hi: "n div 2 < 2 ^ bit_length (n div 2)"
      by simp_all
    have bl: "bit_length n = Suc (bit_length (n div 2))"
      using n0 by (subst bit_length.simps) simp
    have bp: "0 < bit_length (n div 2)"
      using pos by (subst bit_length.simps) simp
    then have e: "2 ^ bit_length (n div 2) = 2 * (2::nat) ^ (bit_length (n div 2) - 1)"
      by (cases "bit_length (n div 2)") simp_all
    from lo have "2 * 2 ^ (bit_length (n div 2) - 1) \<le> n" by simp
    moreover from hi have "n < 2 * 2 ^ bit_length (n div 2)" by simp
    ultimately show ?thesis by (simp add: bl e)
  qed
qed

lemma to_double_small: "n < 2 ^ 53 \<Longrightarrow> to_double n = JNum (of_nat n)"
  by (simp add: to_double_def)

lemma to_double_nearest:
  assumes "2 ^ 53 \<le> n"
  shows "to_double n = JInfinity
         \<or> (\<exists>m. to_double n = JNum (of_nat m)
                \<and> 2 ^ (bit_length n - 53) dvd m
                \<and> m div 2 ^ (bit_length n - 53) \<le> 2 ^ 53
                \<and> 2 * \<bar>int m - int n\<bar> \<le> 2 ^ (bit_length n - 53))"
proof -
  define e where "e = bit_length n - 53"
  define q where "q = n div 2 ^ e"
  define r where "r = n mod 2 ^ e"
  define q' where "q' = (if 2 ^ e < 2 * r \<or> (2 * r = 2 ^ e \<and> odd q) then q + 1 else q)"
  have nq: "n = q * 2 ^ e + r" by (simp add: q_def r_def div_mult_mod_eq)
  have rlt: "r < 2 ^ e" by (simp add: r_def)
  from assms have npos: "0 < n" by (simp add: less_le_trans [of 0 "2 ^ 53"])
  from bit_length_bounds [OF npos] have hi: "n < 2 ^ bit_length n" by simp
  have "53 < bit_length n"
  proof (rule ccontr)
    assume "\<not> 53 < bit_length n"
    then have "bit_length n \<le> 53" by simp
    then have "(2::nat) ^ bit_length n \<le> 2 ^ 53" by (rule power_increasing) simp
    with hi assms show False by simp
  qed
  then have be: "bit_length n = e + 53" by (simp add: e_def)
  have "q < 2 ^ 53"
  proof -
    from hi have "n < 2 ^ 53 * 2 ^ e" by (simp add: be power_add mult.commute)
    then show ?thesis by (simp add: q_def less_mult_imp_div_less)
  qed
  then have q'le: "q' \<le> 2 ^ 53" by (simp add: q'_def)
  have nl: "\<not> n < 2 ^ 53" using assms by (simp only: not_less)
  have td: "to_double n = (if 2 ^ 1024 \<le> q' * 2 ^ e then JInfinity else JNum (of_nat (q' * 2 ^ e)))"
    unfolding to_double_def Let_def q'_def q_def r_def e_def
    by (simp only: nl if_False)
  have ri: "int r < 2 ^ e"
  proof -
    from rlt have "int r < int (2 ^ e)" by (simp only: of_nat_less_iff)
    then show ?thesis by simp
  qed
  have near: "2 * \<bar>int (q' * 2 ^ e) - int n\<bar> \<le> 2 ^ e"
  proof (cases "2 ^ e < 2 * r \<or> (2 * r = 2 ^ e \<and> odd q)")
    case True
    then have "q' = q + 1" by (simp add: q'_def)
    then have d: "int (q' * 2 ^ e) - int n = 2 ^ e - int r"
      by (simp add: nq algebra_simps)
    from True have "2 ^ e \<le> 2 * r" by auto
    then have "int (2 ^ e) \<le> int (2 * r)" by (simp only: of_nat_le_iff)
    then have "2 ^ e \<le> 2 * int r" by simp
    with ri d show ?thesis by simp
  next
    case False
    then have "q' = q" by (simp add: q'_def)
    then have d: "int (q' * 2 ^ e) - int n = - int r"
      by (simp add: nq)
    from False have "2 * r \<le> 2 ^ e" by auto
    then have "int (2 * r) \<le> int (2 ^ e)" by (simp only: of_nat_le_iff)
    then have "2 * int r \<le> 2 ^ e" by simp
    with d show ?thesis by simp
  qed
  show ?thesis
  proof (cases "2 ^ 1024 \<le> q' * 2 ^ e")
    case True
    with td show ?thesis by simp
  next
    case False
    with td have "to_double n = JNum (of_nat (q' * 2 ^ e))" by simp
    moreover have "2 ^ e dvd q' * 2 ^ e" by simp
    moreover have "(q' * 2 ^ e) div 2 ^ e \<le> 2 ^ 53" using q'le by simp
    ultimately show ?thesis using near unfolding e_def by blast
  qed
qed

lemma to_double_overflow:
  assumes "2 ^ 1024 \<le> n"
  shows "to_double n = JInfinity"
proof -
  define e where "e = bit_length n - 53"
  define q where "q = n div 2 ^ e"
  define r where "r = n mod 2 ^ e"
  define q' where "q' = (if 2 ^ e < 2 * r \<or> (2 * r = 2 ^ e \<and> odd q) then q + 1 else q)"
  have p2: "(2::nat) ^ 53 \<le> 2 ^ 1024" by (rule power_increasing) simp_all
  have big: "2 ^ 53 \<le> n" by (rule order_trans [OF p2 assms])
  then have nl: "\<not> n < 2 ^ 53" by (simp only: not_less)
  have td: "to_double n = (if 2 ^ 1024 \<le> q' * 2 ^ e then JInfinity else JNum (of_nat (q' * 2 ^ e)))"
    unfolding to_double_def Let_def q'_def q_def r_def e_def
    by (simp only: nl if_False)
  from big have npos: "0 < n" by (simp add: less_le_trans [of 0 "2 ^ 53"])
  from bit_length_bounds [OF npos]
  have lo: "2 ^ (bit_length n - 1) \<le> n" and hi: "n < 2 ^ bit_length n" by simp_all
  have "1024 < bit_length n"
  proof (rule ccontr)
    assume "\<not> 1024 < bit_length n"
    then have "bit_length n \<le> 1024" by simp
    then have "(2::nat) ^ bit_length n \<le> 2 ^ 1024" by (rule power_increasing) simp
    with hi have "n < 2 ^ 1024" by (rule less_le_trans)
    with assms show False by simp
  qed
  then have be: "bit_length n - 1 = 52 + e" and e972: "972 \<le> e" by (simp_all add: e_def)
  from lo have "2 ^ 52 * 2 ^ e \<le> n" by (simp only: be power_add)
  then have "2 ^ 52 \<le> q" unfolding q_def
    by (simp add: less_eq_div_iff_mult_less_eq)
  then have "2 ^ 52 * 2 ^ e \<le> q * 2 ^ e" by (rule mult_le_mono1)
  moreover have "(2::nat) ^ 1024 \<le> 2 ^ (52 + e)"
    by (rule power_increasing) (use e972 in simp_all)
  moreover have "q * 2 ^ e \<le> q' * 2 ^ e" by (rule mult_le_mono1) (simp add: q'_def)
  ultimately have "2 ^ 1024 \<le> q' * 2 ^ e" by (simp only: power_add)
  with td show ?thesis by (simp only: if_True)
qed

text \<open>A string of decimal digits parses to the number it denotes.\<close>

lemma below_ten: "(d::nat) < 10 \<Longrightarrow> d \<in> {0, 1, 2, 3, 4, 5, 6, 7, 8, 9}"
  by auto

lemma digit_char:
  assumes "d < 10"
  shows "is_digit (''0123456789'' ! d)" and "digit_val (''0123456789'' ! d) = d"
    and "\<not> is_space (''0123456789'' ! d)" and "''0123456789'' ! d \<noteq> CHR ''-''"
    and "''0123456789'' ! d \<noteq> CHR ''+''"
  using below_ten [OF assms]
  by (auto simp: is_digit_def digit_val_def is_space_def)

lemma digits_val_sum:
  "\<forall>d\<in>set ds. d < 10 \<Longrightarrow>
   digits_val acc (map (\<lambda>d. ''0123456789'' ! d) ds)
     = acc * 10 ^ length ds + (\<Sum>i<length ds. ds ! i * 10 ^ (length ds - Suc i))"
proof (induction ds arbitrary: acc)
  case Nil
  then show ?case by simp
next
  case (Cons d ds)
  then have d: "d < 10" and rest: "\<forall>d\<in>set ds. d < 10" by simp_all
  have "digits_val acc (map (\<lambda>d. ''0123456789'' ! d) (d # ds))
          = digits_val (10 * acc + d) (map (\<lambda>d. ''0123456789'' ! d) ds)"
    by (simp add: digit_char(2) [OF d] del: nth_Cons_numeral)
  also have "\<dots> = (10 * acc + d) * 10 ^ length ds
                    + (\<Sum>i<length ds. ds ! i * 10 ^ (length ds - Suc i))"
    by (rule Cons.IH [OF rest])
  also have "\<dots> = acc * 10 ^ length (d # ds)
                    + (d * 10 ^ length ds + (\<Sum>i<length ds. ds ! i * 10 ^ (length ds - Suc i)))"
    by (simp add: algebra_simps)
  also have "d * 10 ^ length ds + (\<Sum>i<length ds. ds ! i * 10 ^ (length ds - Suc i))
               = (\<Sum>i<length (d # ds). (d # ds) ! i * 10 ^ (length (d # ds) - Suc i))"
    by (simp only: length_Cons sum.lessThan_Suc_shift nth_Cons_0 nth_Cons_Suc diff_Suc_Suc diff_zero)
  finally show ?case .
qed

lemma parseInt_digits:
  assumes "ds \<noteq> []" and "\<forall>d\<in>set ds. d < 10"
  shows "parseInt (map (\<lambda>d. ''0123456789'' ! d) ds)
           = to_double (\<Sum>i<length ds. ds ! i * 10 ^ (length ds - Suc i))"
proof -
  let ?t = "map (\<lambda>d. ''0123456789'' ! d) ds"
  from assms obtain d ds' where ds: "ds = d # ds'" by (cases ds) auto
  with assms(2) have d: "d < 10" by simp
  have dw: "dropWhile is_space ?t = ?t"
    using digit_char(3) [OF d] by (simp add: ds del: nth_Cons_numeral)
  have hd: "?t = (''0123456789'' ! d) # map (\<lambda>d. ''0123456789'' ! d) ds'"
    by (simp add: ds)
  have tw: "takeWhile is_digit ?t = ?t"
    using assms(2) by (simp add: takeWhile_eq_all_conv digit_char(1))
  have ne: "?t \<noteq> []" using assms(1) by simp
  have "parseInt ?t = to_double (digits_val 0 ?t)"
    unfolding parseInt_def dw
    using digit_char(4,5) [OF d] tw ne
    by (simp add: hd Let_def del: nth_Cons_numeral)
  then show ?thesis by (simp add: digits_val_sum [OF assms(2)])
qed

lemma parseInt_empty: "parseInt [] = JNaN"
  by (simp add: parseInt_def)

text \<open>
  Examples: a port number; an integer that is no double and is rounded; white space
  U+00A0 before the digits; white space, a sign and text after the digits.
\<close>

lemma parseInt_4000: "parseInt ''4000'' = JNum 4000"
  by (simp add: parseInt_def is_space_def is_digit_def digit_val_def to_double_def)

lemma bl54: "bit_length 9007199254740993 = 54"
  by (simp add: bit_length.simps)

lemma td_round: "to_double 9007199254740993 = JNum 9007199254740992"
  by (simp add: to_double_def bl54 Let_def)

lemma parseInt_rounds: "parseInt ''9007199254740993'' = JNum 9007199254740992"
  by (simp add: parseInt_def is_space_def is_digit_def digit_val_def td_round)

lemma parseInt_nbsp: "parseInt [CHR 0xA0, CHR ''5''] = JNum 5"
  by (simp add: parseInt_def is_space_def is_digit_def digit_val_def to_double_def)

lemma parseInt_negative: "parseInt '' -80x'' = JNum (- 80)"
  by (simp add: parseInt_def is_space_def is_digit_def digit_val_def to_double_def)

lemma parseRinfo_string:
  assumes "CHR '':'' \<notin> set portText"
  shows "parseRinfo (AString (host @ CHR '':'' # portText)) (JFun f)
           = \<lparr>address = parseInt portText, port = JStr host\<rparr>"
  using assms
  by (simp add: Let_def lastIndexOf_last substr_from_def substr_first_def nat_add_distrib)

lemma connect_registers:
  "map_option p_rinfo (rids (snd (connect now a p cb s)) (nextRid s)) = Some (parseRinfo a p)"
  by (simp add: connect_def Let_def genRid_eq send_def del: parseRinfo.simps)

text \<open>
  C10. When \<open>connect\<close> is called with one string "address:port" and the callback in
  the port position, the peer record that \<open>parseRinfo\<close> builds has its fields swapped:
  \<open>address\<close> is the number parsed from the text after the last colon and \<open>port\<close> is
  the text before it; that record is the one \<open>connect\<close> registers for the request.
  The number is pinned down for a text of decimal digits \<open>ds\<close>, which denotes
  \<open>n\<close>, the sum of \<open>ds ! i * 10 ^ (length ds - 1 - i)\<close>: the address is \<open>n\<close> itself
  when \<open>n < 2 ^ 53\<close>, and otherwise \<open>Infinity\<close> or a multiple of \<open>2 ^ e\<close> with a
  significand of at most \<open>2 ^ 53\<close> that lies within half of \<open>2 ^ e\<close> from \<open>n\<close>, where
  \<open>e\<close> is the number of binary digits of \<open>n\<close> beyond 53. With no text after the colon
  the address is NaN.
\<close>

theorem connect_string_swaps_address_and_port:
  assumes "CHR '':'' \<notin> set portText"
  shows "parseRinfo (AString (host @ CHR '':'' # portText)) (JFun f)
           = \<lparr>address = parseInt portText, port = JStr host\<rparr>
         \<and> map_option p_rinfo
              (rids (snd (connect now (AString (host @ CHR '':'' # portText)) (JFun f) JUndefined s))
                 (nextRid s))
           = Some \<lparr>address = parseInt portText, port = JStr host\<rparr>
         \<and> (ds \<noteq> [] \<and> (\<forall>d\<in>set ds. d < 10) \<and> portText = map (\<lambda>d. ''0123456789'' ! d) ds
              \<and> (\<Sum>i<length ds. ds ! i * 10 ^ (length ds - Suc i)) < 2 ^ 53
            \<longrightarrow> parseRinfo (AString (host @ CHR '':'' # portText)) (JFun f)
                  = \<lparr>address = JNum (of_nat (\<Sum>i<length ds. ds ! i * 10 ^ (length ds - Suc i))),
                     port = JStr host\<rparr>)
         \<and> (ds \<noteq> [] \<and> (\<forall>d\<in>set ds. d < 10) \<and> portText = map (\<lambda>d. ''0123456789'' ! d) ds
              \<and> 2 ^ 53 \<le> (\<Sum>i<length ds. ds ! i * 10 ^ (length ds - Suc i))
            \<longrightarrow> port (parseRinfo (AString (host @ CHR '':'' # portText)) (JFun f)) = JStr host
                \<and> (address (parseRinfo (AString (host @ CHR '':'' # portText)) (JFun f)) = JInfinity
                   \<or> (\<exists>m. address (parseRinfo (AString (host @ CHR '':'' # portText)) (JFun f))
                            = JNum (of_nat m)
                         \<and> 2 ^ (bit_length (\<Sum>i<length ds. ds ! i * 10 ^ (length ds - Suc i)) - 53) dvd m
                         \<and> m div 2 ^ (bit_length (\<Sum>i<length ds. ds ! i * 10 ^ (length ds - Suc i)) - 53)
                             \<le> 2 ^ 53
                         \<and> 2 * \<bar>int m - int (\<Sum>i<length ds. ds ! i * 10 ^ (length ds - Suc i))\<bar>
                             \<le> 2 ^ (bit_length (\<Sum>i<length ds. ds ! i * 10 ^ (length ds - Suc i)) - 53))))
         \<and> (portText = [] \<longrightarrow> parseRinfo (AString (host @ CHR '':'' # portText)) (JFun f)
                                 = \<lparr>address = JNaN, port = JStr host\<rparr>)"
proof -
  let ?r = "parseRinfo (AString (host @ CHR '':'' # portText)) (JFun f)"
  let ?n = "\<Sum>i<length ds. ds ! i * 10 ^ (length ds - Suc i)"
  have p: "?r = \<lparr>address = parseInt portText, port = JStr host\<rparr>"
    using assms by (rule parseRinfo_string)
  have c: "map_option p_rinfo
              (rids (snd (connect now (AString (host @ CHR '':'' # portText)) (JFun f) JUndefined s))
                 (nextRid s))
           = Some \<lparr>address = parseInt portText, port = JStr host\<rparr>"
    by (simp only: connect_registers p)
  have ap: "address ?r = parseInt portText" "port ?r = JStr host"
    by (simp_all add: p del: parseRinfo.simps)
  have small: "?r = \<lparr>address = JNum (of_nat ?n), port = JStr host\<rparr>"
    if h: "ds \<noteq> [] \<and> (\<forall>d\<in>set ds. d < 10) \<and> portText = map (\<lambda>d. ''0123456789'' ! d) ds
              \<and> ?n < 2 ^ 53"
  proof -
    from h have "parseInt portText = to_double ?n" by (simp add: parseInt_digits)
    also from h have "\<dots> = JNum (of_nat ?n)" by (intro to_double_small) simp
    finally show ?thesis by (simp only: p)
  qed
  have large: "port ?r = JStr host
                \<and> (address ?r = JInfinity
                   \<or> (\<exists>m. address ?r = JNum (of_nat m)
                         \<and> 2 ^ (bit_length ?n - 53) dvd m
                         \<and> m div 2 ^ (bit_length ?n - 53) \<le> 2 ^ 53
                         \<and> 2 * \<bar>int m - int ?n\<bar> \<le> 2 ^ (bit_length ?n - 53)))"
    if h: "ds \<noteq> [] \<and> (\<forall>d\<in>set ds. d < 10) \<and> portText = map (\<lambda>d. ''0123456789'' ! d) ds
              \<and> 2 ^ 53 \<le> ?n"
  proof -
    from h have "parseInt portText = to_double ?n" by (simp add: parseInt_digits)
    with ap have a: "address ?r = to_double ?n" by (simp only:)
    from h have "2 ^ 53 \<le> ?n" by (elim conjE)
    from to_double_nearest [OF this] show ?thesis
      unfolding a by (intro conjI ap(2))
  qed
  have empty: "?r = \<lparr>address = JNaN, port = JStr host\<rparr>" if e: "portText = []"
  proof -
    from e have "parseInt portText = JNaN" by (simp only: parseInt_empty)
    with p show ?thesis by (simp only:)
  qed
  show ?thesis
  proof (intro conjI)
    show "ds \<noteq> [] \<and> (\<forall>d\<in>set ds. d < 10) \<and> portText = map (\<lambda>d. ''0123456789'' ! d) ds
              \<and> ?n < 2 ^ 53
            \<longrightarrow> ?r = \<lparr>address = JNum (of_nat ?n), port = JStr host\<rparr>"
      by (rule impI) (rule small)
    show "ds \<noteq> [] \<and> (\<forall>d\<in>set ds. d < 10) \<and> portText = map (\<lambda>d. ''0123456789'' ! d) ds
              \<and> 2 ^ 53 \<le> ?n
            \<longrightarrow> port ?r = JStr host
                \<and> (address ?r = JInfinity
                   \<or> (\<exists>m. address ?r = JNum (of_nat m)
                         \<and> 2 ^ (bit_length ?n - 53) dvd m
                         \<and> m div 2 ^ (bit_length ?n - 53) \<le> 2 ^ 53
                         \<and> 2 * \<bar>int m - int ?n\<bar> \<le> 2 ^ (bit_length ?n - 53)))"
      by (rule impI) (rule large)
    show "portText = [] \<longrightarrow> ?r = \<lparr>address = JNaN, port = JStr host\<rparr>"
      by (rule impI) (rule empty)
  qed (rule p c)+
qed

theorem connect_string_swaps_address_and_port_witness:
  "CHR '':'' \<notin> set ''4000''
   \<and> ''4000'' = map (\<lambda>d. ''0123456789'' ! d) [4, 0, 0, 0::nat]
   \<and> (\<Sum>i<length [4, 0, 0, 0::nat]. [4, 0, 0, 0::nat] ! i * 10 ^ (length [4, 0, 0, 0::nat] - Suc i)) = (4000::nat)
   \<and> parseRinfo (AString ''10.0.0.1:4000'') (JFun 1)
       = \<lparr>address = JNum 4000, port = JStr ''10.0.0.1''\<rparr>
   \<and> map_option p_rinfo
        (rids (snd (connect 0 (AString ''10.0.0.1:4000'') (JFun 1) JUndefined (new_engine 0))) 0)
       = Some \<lparr>address = JNum 4000, port = JStr ''10.0.0.1''\<rparr>
   \<and> parseRinfo (AString ''h:9007199254740993'') (JFun 1)
       = \<lparr>address = JNum 9007199254740992, port = JStr ''h''\<rparr>
   \<and> parseRinfo (AString (''h:'' @ [CHR 0xA0, CHR ''5''])) (JFun 1)
       = \<lparr>address = JNum 5, port = JStr ''h''\<rparr>
   \<and> parseRinfo (AString ''h:'') (JFun 1) = \<lparr>address = JNaN, port = JStr ''h''\<rparr>"
proof -
  have h: "CHR '':'' \<notin> set ''4000''" by simp
  have m: "''4000'' = map (\<lambda>d. ''0123456789'' ! d) [4, 0, 0, 0::nat]" by simp
  have lt: "{..<4::nat} = {0, 1, 2, 3}" by auto
  have v: "(\<Sum>i<length [4, 0, 0, 0::nat]. [4, 0, 0, 0::nat] ! i * 10 ^ (length [4, 0, 0, 0::nat] - Suc i))
             = (4000::nat)"
    by (simp add: lt)
  have d: "[4, 0, 0, 0::nat] \<noteq> [] \<and> (\<forall>d\<in>set [4, 0, 0, 0::nat]. d < 10)
           \<and> ''4000'' = map (\<lambda>d. ''0123456789'' ! d) [4, 0, 0, 0::nat]
           \<and> (\<Sum>i<length [4, 0, 0, 0::nat]. [4, 0, 0, 0::nat] ! i * 10 ^ (length [4, 0, 0, 0::nat] - Suc i))
               < 2 ^ 53"
    using m by (simp only: v) simp
  have n: "nextRid (new_engine 0 :: closure engine) = 0"
    by (simp add: new_engine_def)
  note t = connect_string_swaps_address_and_port [OF h, where host = "''10.0.0.1''" and f = 1 and now = 0
      and s = "new_engine 0 :: closure engine" and ds = "[4, 0, 0, 0::nat]"]
  from t [THEN conjunct2, THEN conjunct2, THEN conjunct1, rule_format, OF d]
  have a: "parseRinfo (AString ''10.0.0.1:4000'') (JFun 1)
       = \<lparr>address = JNum 4000, port = JStr ''10.0.0.1''\<rparr>"
    by (simp only: v) simp
  from t [THEN conjunct2, THEN conjunct1]
  have b: "map_option p_rinfo
        (rids (snd (connect 0 (AString ''10.0.0.1:4000'') (JFun 1) JUndefined (new_engine 0))) 0)
       = Some \<lparr>address = JNum 4000, port = JStr ''10.0.0.1''\<rparr>"
    by (simp add: n parseInt_4000)
  have h2: "CHR '':'' \<notin> set ''9007199254740993''" by simp
  from connect_string_swaps_address_and_port [OF h2, where host = "''h''" and f = 1, THEN conjunct1]
  have c: "parseRinfo (AString ''h:9007199254740993'') (JFun 1)
       = \<lparr>address = JNum 9007199254740992, port = JStr ''h''\<rparr>"
    by (simp only: parseInt_rounds append.simps)
  have h3: "CHR '':'' \<notin> set [CHR 0xA0, CHR ''5'']" by simp
  from connect_string_swaps_address_and_port [OF h3, where host = "''h''" and f = 1, THEN conjunct1]
  have e: "parseRinfo (AString (''h:'' @ [CHR 0xA0, CHR ''5''])) (JFun 1)
       = \<lparr>address = JNum 5, port = JStr ''h''\<rparr>"
    by (simp only: parseInt_nbsp append.simps)
  have h4: "CHR '':'' \<notin> set []" by simp
  from connect_string_swaps_address_and_port [OF h4, where host = "''h''" and f = 1, THEN conjunct2, THEN conjunct2,
       THEN conjunct2, THEN conjunct2, rule_format, OF refl]
  have g: "parseRinfo (AString ''h:'') (JFun 1) = \<lparr>address = JNaN, port = JStr ''h''\<rparr>"
    by (simp only: append.simps)
  from h m v a b c e g show ?thesis by (intro conjI)
qed

section \<open>Properties of the request table\<close>

lemma rinfoEqual_same: "rinfoEqual a b \<Longrightarrow> a = b"
  by (simp add: rinfoEqual_def strict_eq_def)

lemma getRidCallback_match:
  "rids s q = Some obj \<Longrightarrow> rinfoEqual (p_rinfo obj) ri \<Longrightarrow> getRidCallback (JNum q) ri s = Some (q, obj)"
  by (simp add: getRidCallback_def)

lemma handleResponse_absent:
  "rids s q = None \<Longrightarrow> handleResponse call data (JNum q) ri s = (None, s)"
  by (simp add: handleResponse_def getRidCallback_def)

lemma handleErrorResponse_absent:
  "rids s q = None \<Longrightarrow> handleErrorResponse call data code (JNum q) ri s = (None, s)"
  by (simp add: handleErrorResponse_def getRidCallback_def)

lemma one_pending_eq:
  "one_pending h =
     (new_engine 0)\<lparr>nextRid := 1,
        rids := [0 \<mapsto> \<lparr>p_rinfo = peer1, p_callback = h, p_timeout = 0\<rparr>],
        timers := [0 \<mapsto> (0, h)], nextTimer := 1\<rparr>"
  by (simp add: one_pending_def genRid_eq new_engine_def RID_MAX_def)

lemma peer1_self: "rinfoEqual peer1 peer1"
  by (simp add: rinfoEqual_def strict_eq_def peer1_def)

lemma peers_differ: "\<not> rinfoEqual peer1 peer2" "peer1 \<noteq> peer2"
  by (simp_all add: rinfoEqual_def strict_eq_def peer1_def peer2_def)

text \<open>
  C8. A response or an error response that carries request id \<open>q\<close> and comes from
  \<open>peerB\<close>, when the request pending under \<open>q\<close> was allocated for another peer
  \<open>peerA\<close>, does not run the callback of that request. More generally, when the recorded
  peer does not match the origin by address and port (\<open>rinfoEqual\<close>), or nothing is
  pending under \<open>q\<close>, both \<open>_handleResponse\<close> and \<open>_handleErrorResponse\<close> return
  without an error and leave the engine exactly as it was; \<open>call\<close>, the way callbacks
  run, is arbitrary, so no callback has run.
\<close>

theorem resolve_ignores_other_origin:
  "(rids s q = Some obj \<and> p_rinfo obj = peerA \<and> peerA \<noteq> peerB
        \<longrightarrow> handleResponse call data (JNum q) peerB s = (None, s)
          \<and> handleErrorResponse call data code (JNum q) peerB s = (None, s))
   \<and> (rids s q = None \<or> (\<exists>obj. rids s q = Some obj \<and> \<not> rinfoEqual (p_rinfo obj) peerB)
        \<longrightarrow> handleResponse call data (JNum q) peerB s = (None, s)
          \<and> handleErrorResponse call data code (JNum q) peerB s = (None, s))"
proof -
  have b: "handleResponse call data (JNum q) peerB s = (None, s)
           \<and> handleErrorResponse call data code (JNum q) peerB s = (None, s)"
    if h: "rids s q = None \<or> (\<exists>obj. rids s q = Some obj \<and> \<not> rinfoEqual (p_rinfo obj) peerB)"
  proof -
    from h have "getRidCallback (JNum q) peerB s = None"
      by (auto simp: getRidCallback_def)
    then show ?thesis
      by (simp add: handleResponse_def handleErrorResponse_def)
  qed
  have a: "handleResponse call data (JNum q) peerB s = (None, s)
           \<and> handleErrorResponse call data code (JNum q) peerB s = (None, s)"
    if h: "rids s q = Some obj \<and> p_rinfo obj = peerA \<and> peerA \<noteq> peerB"
  proof -
    from h have "\<not> rinfoEqual (p_rinfo obj) peerB"
      using rinfoEqual_same by blast
    with h have "\<exists>obj. rids s q = Some obj \<and> \<not> rinfoEqual (p_rinfo obj) peerB"
      by blast
    then show ?thesis by (intro b disjI2)
  qed
  show ?thesis
  proof (rule conjI)
    show "rids s q = Some obj \<and> p_rinfo obj = peerA \<and> peerA \<noteq> peerB
        \<longrightarrow> handleResponse call data (JNum q) peerB s = (None, s)
          \<and> handleErrorResponse call data code (JNum q) peerB s = (None, s)"
      by (rule impI) (rule a)
  next
    show "rids s q = None \<or> (\<exists>obj. rids s q = Some obj \<and> \<not> rinfoEqual (p_rinfo obj) peerB)
        \<longrightarrow> handleResponse call data (JNum q) peerB s = (None, s)
          \<and> handleErrorResponse call data code (JNum q) peerB s = (None, s)"
      by (rule impI) (rule b)
  qed
qed

theorem resolve_ignores_other_origin_witness:
  "rids (one_pending 8) 0 = Some \<lparr>p_rinfo = peer1, p_callback = 8, p_timeout = 0\<rparr>
   \<and> peer1 \<noteq> peer2
   \<and> handleResponse noting_call [] (JNum 0) peer2 (one_pending 8) = (None, one_pending 8)
   \<and> handleErrorResponse noting_call [] (JNum (-1)) (JNum 0) peer2 (one_pending 8) = (None, one_pending 8)
   \<and> rids (one_pending 8) 5 = None
   \<and> handleResponse noting_call [] (JNum 5) peer1 (one_pending 8) = (None, one_pending 8)
   \<and> handleErrorResponse noting_call [] (JNum (-1)) (JNum 5) peer1 (one_pending 8) = (None, one_pending 8)"
proof -
  let ?obj = "\<lparr>p_rinfo = peer1, p_callback = 8::nat, p_timeout = 0\<rparr>"
  have e: "rids (one_pending 8) 0 = Some ?obj"
    by (simp add: one_pending_eq)
  have d: "peer1 \<noteq> peer2" by (rule peers_differ)
  have h: "rids (one_pending 8) 0 = Some ?obj \<and> p_rinfo ?obj = peer1 \<and> peer1 \<noteq> peer2"
    using e d by simp
  have n: "rids (one_pending 8) 5 = None"
    by (simp add: one_pending_eq)
  then have h5: "rids (one_pending 8) 5 = None
      \<or> (\<exists>obj. rids (one_pending 8) 5 = Some obj \<and> \<not> rinfoEqual (p_rinfo obj) peer1)"
    by simp
  note t0 = resolve_ignores_other_origin
    [where s = "one_pending 8" and q = 0 and obj = ?obj and peerA = peer1 and peerB = peer2
       and call = noting_call and data = "[]" and code = "JNum (-1)", THEN conjunct1, rule_format, OF h]
  note t5 = resolve_ignores_other_origin
    [where s = "one_pending 8" and q = 5 and obj = ?obj and peerA = peer1 and peerB = peer1
       and call = noting_call and data = "[]" and code = "JNum (-1)", THEN conjunct2, rule_format, OF h5]
  from t0 t5 e d n show ?thesis by (intro conjI) simp_all
qed

text \<open>
  C9. For a pending request \<open>q\<close> and a response from its recorded peer: when the callback
  returns \<open>true\<close> (the "continue" value) and there is no error, the table changes nothing
  after the callback (the timer stays armed, the entry stays, and a further response finds
  it again); when it returns anything else, or when the resolve carries an error, the timer
  is cleared and the entry deleted, and further responses or errors for \<open>q\<close> do nothing.
\<close>

theorem continue_keeps_entry_else_removed:
  assumes "rids s q = Some obj" and "rinfoEqual (p_rinfo obj) peer"
  shows
    "(call (p_callback obj) None (Some data) (Some peer) s = (Inr (Prim (JBool True)), s')
        \<longrightarrow> handleResponse call data (JNum q) peer s = (None, s')
          \<and> (rids s' q = Some obj \<longrightarrow> getRidCallback (JNum q) peer s' = Some (q, obj)))
     \<and> (call (p_callback obj) None (Some data) (Some peer) s = (Inr v, s') \<and> v \<noteq> Prim (JBool True)
        \<longrightarrow> handleResponse call data (JNum q) peer s
              = (None, s'\<lparr>timers := (timers s')(p_timeout obj := None), rids := (rids s')(q := None)\<rparr>))
     \<and> (call (p_callback obj) (Some (error_of data code)) (Some (tl data)) (Some peer) s = (Inr v, s')
        \<longrightarrow> handleErrorResponse call data code (JNum q) peer s
              = (None, s'\<lparr>timers := (timers s')(p_timeout obj := None), rids := (rids s')(q := None)\<rparr>))
     \<and> handleResponse call data' (JNum q) peer'
          (s'\<lparr>timers := (timers s')(p_timeout obj := None), rids := (rids s')(q := None)\<rparr>)
        = (None, s'\<lparr>timers := (timers s')(p_timeout obj := None), rids := (rids s')(q := None)\<rparr>)
     \<and> handleErrorResponse call data' code' (JNum q) peer'
          (s'\<lparr>timers := (timers s')(p_timeout obj := None), rids := (rids s')(q := None)\<rparr>)
        = (None, s'\<lparr>timers := (timers s')(p_timeout obj := None), rids := (rids s')(q := None)\<rparr>)"
proof -
  let ?gone = "s'\<lparr>timers := (timers s')(p_timeout obj := None), rids := (rids s')(q := None)\<rparr>"
  have g: "getRidCallback (JNum q) peer s = Some (q, obj)"
    using assms by (rule getRidCallback_match)
  have k: "handleResponse call data (JNum q) peer s = (None, s')
           \<and> (rids s' q = Some obj \<longrightarrow> getRidCallback (JNum q) peer s' = Some (q, obj))"
    if "call (p_callback obj) None (Some data) (Some peer) s = (Inr (Prim (JBool True)), s')"
  proof -
    have "handleResponse call data (JNum q) peer s = (None, s')"
      using that by (simp add: handleResponse_def g rid_callback_def)
    moreover have "rids s' q = Some obj \<longrightarrow> getRidCallback (JNum q) peer s' = Some (q, obj)"
      using assms(2) by (simp add: getRidCallback_def)
    ultimately show ?thesis by simp
  qed
  have r: "handleResponse call data (JNum q) peer s = (None, ?gone)"
    if "call (p_callback obj) None (Some data) (Some peer) s = (Inr v, s') \<and> v \<noteq> Prim (JBool True)"
    using that by (simp add: handleResponse_def g rid_callback_def)
  have e: "handleErrorResponse call data code (JNum q) peer s = (None, ?gone)"
    if "call (p_callback obj) (Some (error_of data code)) (Some (tl data)) (Some peer) s = (Inr v, s')"
    using that by (simp add: handleErrorResponse_def g rid_callback_def)
  have n: "rids ?gone q = None" by simp
  have n1: "handleResponse call data' (JNum q) peer' ?gone = (None, ?gone)"
    using n by (rule handleResponse_absent)
  have n2: "handleErrorResponse call data' code' (JNum q) peer' ?gone = (None, ?gone)"
    using n by (rule handleErrorResponse_absent)
  show ?thesis
  proof (intro conjI)
    show "call (p_callback obj) None (Some data) (Some peer) s = (Inr (Prim (JBool True)), s')
        \<longrightarrow> handleResponse call data (JNum q) peer s = (None, s')
          \<and> (rids s' q = Some obj \<longrightarrow> getRidCallback (JNum q) peer s' = Some (q, obj))"
      by (rule impI) (rule k)
    show "call (p_callback obj) None (Some data) (Some peer) s = (Inr v, s') \<and> v \<noteq> Prim (JBool True)
        \<longrightarrow> handleResponse call data (JNum q) peer s = (None, ?gone)"
      by (rule impI) (rule r)
    show "call (p_callback obj) (Some (error_of data code)) (Some (tl data)) (Some peer) s = (Inr v, s')
        \<longrightarrow> handleErrorResponse call data code (JNum q) peer s = (None, ?gone)"
      by (rule impI) (rule e)
    show "handleResponse call data' (JNum q) peer' ?gone = (None, ?gone)" by (rule n1)
    show "handleErrorResponse call data' code' (JNum q) peer' ?gone = (None, ?gone)" by (rule n2)
  qed
qed

theorem continue_keeps_entry_else_removed_witness:
  "rids (one_pending 7) 0 = Some \<lparr>p_rinfo = peer1, p_callback = 7, p_timeout = 0\<rparr>
   \<and> rinfoEqual peer1 peer1
   \<and> handleResponse noting_call [] (JNum 0) peer1 (one_pending 7)
       = (None, (one_pending 7)\<lparr>out := [Call 7 [AVal (Arr [])]]\<rparr>)
   \<and> getRidCallback (JNum 0) peer1 ((one_pending 7)\<lparr>out := [Call 7 [AVal (Arr [])]]\<rparr>)
       = Some (0, \<lparr>p_rinfo = peer1, p_callback = 7, p_timeout = 0\<rparr>)
   \<and> handleErrorResponse noting_call [] (JNum (-1)) (JNum 0) peer1 (one_pending 7)
       = (None, (one_pending 7)\<lparr>out := [Call 7 [AVal (Arr [])]], timers := Map.empty, rids := Map.empty\<rparr>)
   \<and> handleResponse noting_call [] (JNum 0) peer1 (one_pending 8)
       = (None, (one_pending 8)\<lparr>out := [Call 8 [AVal (Arr [])]], timers := Map.empty, rids := Map.empty\<rparr>)
   \<and> handleResponse noting_call [] (JNum 0) peer1
         ((one_pending 8)\<lparr>out := [Call 8 [AVal (Arr [])]], timers := Map.empty, rids := Map.empty\<rparr>)
       = (None, (one_pending 8)\<lparr>out := [Call 8 [AVal (Arr [])]], timers := Map.empty, rids := Map.empty\<rparr>)"
proof -
  let ?o7 = "\<lparr>p_rinfo = peer1, p_callback = 7::nat, p_timeout = 0\<rparr>"
  let ?o8 = "\<lparr>p_rinfo = peer1, p_callback = 8::nat, p_timeout = 0\<rparr>"
  let ?s7 = "(one_pending 7)\<lparr>out := [Call 7 [AVal (Arr [])]]\<rparr>"
  let ?s8 = "(one_pending 8)\<lparr>out := [Call 8 [AVal (Arr [])]]\<rparr>"
  have e7: "rids (one_pending 7) 0 = Some ?o7" by (simp add: one_pending_eq)
  have e8: "rids (one_pending 8) 0 = Some ?o8" by (simp add: one_pending_eq)
  have p7: "rinfoEqual (p_rinfo ?o7) peer1" by (simp add: peer1_self)
  have p8: "rinfoEqual (p_rinfo ?o8) peer1" by (simp add: peer1_self)
  have c7: "noting_call (p_callback ?o7) None (Some []) (Some peer1) (one_pending 7)
             = (Inr (Prim (JBool True)), ?s7)"
    by (simp add: noting_call_def data_arg_def one_pending_eq new_engine_def)
  have c7e: "noting_call (p_callback ?o7) (Some (error_of [] (JNum (-1)))) (Some (tl [])) (Some peer1) (one_pending 7)
             = (Inr (Prim (JBool True)), ?s7)"
    by (simp add: noting_call_def data_arg_def one_pending_eq new_engine_def)
  have c8: "noting_call (p_callback ?o8) None (Some []) (Some peer1) (one_pending 8)
             = (Inr (Prim JUndefined), ?s8) \<and> Prim JUndefined \<noteq> Prim (JBool True)"
    by (simp add: noting_call_def data_arg_def one_pending_eq new_engine_def)
  have r7: "rids ?s7 0 = Some ?o7" by (simp add: one_pending_eq)
  have g7: "?s7\<lparr>timers := (timers ?s7)(p_timeout ?o7 := None), rids := (rids ?s7)(0 := None)\<rparr>
            = (one_pending 7)\<lparr>out := [Call 7 [AVal (Arr [])]], timers := Map.empty, rids := Map.empty\<rparr>"
    by (simp add: one_pending_eq)
  have g8: "?s8\<lparr>timers := (timers ?s8)(p_timeout ?o8 := None), rids := (rids ?s8)(0 := None)\<rparr>
            = (one_pending 8)\<lparr>out := [Call 8 [AVal (Arr [])]], timers := Map.empty, rids := Map.empty\<rparr>"
    by (simp add: one_pending_eq)
  note t7 = continue_keeps_entry_else_removed
    [where call = noting_call and data = "[]" and s' = ?s7 and v = "Prim (JBool True)"
       and code = "JNum (-1)" and data' = "[]" and peer' = peer1 and code' = "JNum (-1)",
     OF e7 p7]
  note t8 = continue_keeps_entry_else_removed
    [where call = noting_call and data = "[]" and s' = ?s8 and v = "Prim JUndefined"
       and code = "JNum (-1)" and data' = "[]" and peer' = peer1 and code' = "JNum (-1)",
     OF e8 p8]
  from t7 c7 c7e r7 have a: "handleResponse noting_call [] (JNum 0) peer1 (one_pending 7) = (None, ?s7)"
    and b: "getRidCallback (JNum 0) peer1 ?s7 = Some (0, ?o7)"
    and c: "handleErrorResponse noting_call [] (JNum (-1)) (JNum 0) peer1 (one_pending 7)
       = (None, (one_pending 7)\<lparr>out := [Call 7 [AVal (Arr [])]], timers := Map.empty, rids := Map.empty\<rparr>)"
    by (simp_all only: g7 simp_thms)
  from t8 c8 have d: "handleResponse noting_call [] (JNum 0) peer1 (one_pending 8)
       = (None, (one_pending 8)\<lparr>out := [Call 8 [AVal (Arr [])]], timers := Map.empty, rids := Map.empty\<rparr>)"
    and f: "handleResponse noting_call [] (JNum 0) peer1
         ((one_pending 8)\<lparr>out := [Call 8 [AVal (Arr [])]], timers := Map.empty, rids := Map.empty\<rparr>)
       = (None, (one_pending 8)\<lparr>out := [Call 8 [AVal (Arr [])]], timers := Map.empty, rids := Map.empty\<rparr>)"
    by (simp_all only: g8 simp_thms)
  from e7 peer1_self a b c d f show ?thesis by (intro conjI)
qed

section \<open>Properties of the dispatcher\<close>

lemma send_to_peer:
  "send data (Some (ARinfo ri)) p s = (None, s\<lparr>out := out s @ [SocketSend data (port ri) (address ri)]\<rparr>)"
  by (simp add: send_def)

lemma send_nowhere: "send data None p s = (Some TypeError, s)"
  by (simp add: send_def)

lemma handleMessage_undefined: "handleMessage call (Prim JUndefined) ri s = (None, s)"
  by (simp add: handleMessage_def)

text \<open>
  C2. Every datagram the transport delivers is dropped by the 'message' handler, and
  nothing is dispatched: evaluating \<open>self\<close> throws, the \<open>catch\<close> returns, and the
  engine is left as it was, with no message handed to \<open>_handleMessage\<close>, whatever the
  datagram and whatever is pending. Moreover the instance's own \<open>decode\<close> yields
  \<open>undefined\<close> whenever it returns, and \<open>_handleMessage\<close> given \<open>undefined\<close> does
  nothing.
\<close>

theorem inbound_datagram_never_dispatched:
  "on_message call buf ri s = (None, s)
   \<and> (\<forall>v. decode parser_decode buf = Inr v \<longrightarrow> v = Prim JUndefined)
   \<and> handleMessage call (Prim JUndefined) ri s = (None, s)"
proof (intro conjI allI impI)
  show "on_message call buf ri s = (None, s)"
    by (simp add: on_message_def self_decode_def)
next
  fix v assume "decode parser_decode buf = Inr v"
  then show "v = Prim JUndefined"
    by (auto simp: decode_def split: sum.splits)
next
  show "handleMessage call (Prim JUndefined) ri s = (None, s)"
    by (rule handleMessage_undefined)
qed

theorem inbound_datagram_never_dispatched_witness:
  "decode ping_codec [1] = Inr (Prim JUndefined)
   \<and> on_message noting_call [1] peer1 (one_pending 8) = (None, one_pending 8)
   \<and> handleMessage noting_call (Prim JUndefined) peer1 (one_pending 8) = (None, one_pending 8)"
proof -
  have d: "decode ping_codec [1] = Inr (Prim JUndefined)"
    by (simp add: decode_def ping_codec_def)
  from inbound_datagram_never_dispatched [of noting_call "[1]" peer1 "one_pending 8" ping_codec] d
  show ?thesis by simp
qed

lemma new_engine_fields:
  "rids (new_engine r) = Map.empty"
  "requestTypesMap (new_engine r) = [MSG_TYPE_PING \<mapsto> PingHandler]"
  "peers (new_engine r) = []"
  "peersMap (new_engine r) = Map.empty"
  "peersVarsMap (new_engine r) = Map.empty"
  "varsMap (new_engine r) = Map.empty"
  "listeners (new_engine r) = Map.empty"
  "timers (new_engine r) = Map.empty"
  "nextTimer (new_engine r) = 0"
  "nextFrame (new_engine r) = 0"
  "out (new_engine r) = []"
  by (simp_all add: new_engine_def)

lemma request_without_handler:
  "0 < t \<Longrightarrow> is_number rid \<Longrightarrow> requestTypesMap s t = None \<Longrightarrow>
   handleMessage call (Arr (Prim (JNum t) # Prim rid # payload)) ri s
     = (None, s\<lparr>out := out s @ [SocketSend [Prim (JNum (-1)), Prim rid,
                                              Prim (JStr ''Unknown request type'')]
                                             (port ri) (address ri)]\<rparr>)"
  by (simp add: handleMessage_def MSG_TYPE_RESPONSE_def handleRequest_def send_to_peer
      MSG_TYPE_ERROR_UNKNOWN_def)

lemma ping_request:
  "is_number rid \<Longrightarrow> requestTypesMap s MSG_TYPE_PING = Some PingHandler \<Longrightarrow>
   handleMessage call (Arr (Prim (JNum MSG_TYPE_PING) # Prim rid # payload)) ri s
     = (None, s\<lparr>out := out s @ [SocketSend [Prim (JNum 0), Prim rid] (port ri) (address ri)]\<rparr>)"
  by (simp add: handleMessage_def MSG_TYPE_RESPONSE_def handleRequest_def pingHandler_def
      send_to_peer MSG_TYPE_PING_def)

lemma get_publish_positive:
  "t = MSG_TYPE_GET \<or> t = MSG_TYPE_PUBLISH \<Longrightarrow> 0 < t \<and> t \<noteq> MSG_TYPE_PING"
  by (auto simp: MSG_TYPE_GET_def MSG_TYPE_PUBLISH_def MSG_TYPE_PING_def)

text \<open>
  C3, as the code has it. The registry holds one handler, for PING, which answers with
  an empty RESPONSE. It holds none for GET or PUBLISH: such a request is answered with
  the error response \<open>[-1, requestId, 'Unknown request type']\<close> to its sender and has no
  other effect, so no stored value is read or replaced and no event is raised.
\<close>

theorem only_ping_has_a_handler:
  assumes "requestTypesMap s = [MSG_TYPE_PING \<mapsto> PingHandler]"
    and "t = MSG_TYPE_GET \<or> t = MSG_TYPE_PUBLISH"
    and "is_number rid"
  shows "handleMessage call (Arr (Prim (JNum t) # Prim rid # payload)) ri s
           = (None, s\<lparr>out := out s @ [SocketSend [Prim (JNum (-1)), Prim rid,
                                                    Prim (JStr ''Unknown request type'')]
                                                   (port ri) (address ri)]\<rparr>)
         \<and> handleMessage call (Arr (Prim (JNum MSG_TYPE_PING) # Prim rid # payload)) ri s
           = (None, s\<lparr>out := out s @ [SocketSend [Prim (JNum 0), Prim rid] (port ri) (address ri)]\<rparr>)"
proof -
  from assms(2) have pos: "0 < t" and np: "t \<noteq> MSG_TYPE_PING"
    using get_publish_positive by blast+
  from np assms(1) have "requestTypesMap s t = None" by simp
  with pos assms(3)
  have a: "handleMessage call (Arr (Prim (JNum t) # Prim rid # payload)) ri s
           = (None, s\<lparr>out := out s @ [SocketSend [Prim (JNum (-1)), Prim rid,
                                                    Prim (JStr ''Unknown request type'')]
                                                   (port ri) (address ri)]\<rparr>)"
    by (rule request_without_handler)
  from assms(1) have "requestTypesMap s MSG_TYPE_PING = Some PingHandler" by simp
  with assms(3)
  have b: "handleMessage call (Arr (Prim (JNum MSG_TYPE_PING) # Prim rid # payload)) ri s
           = (None, s\<lparr>out := out s @ [SocketSend [Prim (JNum 0), Prim rid] (port ri) (address ri)]\<rparr>)"
    by (rule ping_request)
  from a b show ?thesis by (rule conjI)
qed

theorem only_ping_has_a_handler_witness:
  "requestTypesMap (new_engine 0 :: closure engine) = [MSG_TYPE_PING \<mapsto> PingHandler]
   \<and> (MSG_TYPE_PUBLISH = MSG_TYPE_GET \<or> MSG_TYPE_PUBLISH = MSG_TYPE_PUBLISH)
   \<and> is_number (JNum 5)
   \<and> handleMessage silent_call (Arr [Prim (JNum 3), Prim (JNum 5), Sig 1]) peer1
        (new_engine 0 :: closure engine)
       = (None, (new_engine 0)\<lparr>out := [SocketSend [Prim (JNum (-1)), Prim (JNum 5),
                                                    Prim (JStr ''Unknown request type'')]
                                                   (JNum 4000) (JStr ''10.0.0.1'')]\<rparr>)
   \<and> handleMessage silent_call (Arr [Prim (JNum 1), Prim (JNum 5), Sig 1]) peer1
        (new_engine 0 :: closure engine)
       = (None, (new_engine 0)\<lparr>out := [SocketSend [Prim (JNum 0), Prim (JNum 5)]
                                                   (JNum 4000) (JStr ''10.0.0.1'')]\<rparr>)"
proof -
  have h1: "requestTypesMap (new_engine 0 :: closure engine) = [MSG_TYPE_PING \<mapsto> PingHandler]"
    by (simp add: new_engine_fields)
  have h2: "MSG_TYPE_PUBLISH = MSG_TYPE_GET \<or> MSG_TYPE_PUBLISH = MSG_TYPE_PUBLISH" by simp
  have h3: "is_number (JNum 5)" by simp
  have o: "out (new_engine 0 :: closure engine) = []" by (simp add: new_engine_def)
  note t = only_ping_has_a_handler [OF h1 h2 h3, of silent_call "[Sig 1]" peer1,
      unfolded MSG_TYPE_PUBLISH_def MSG_TYPE_PING_def o]
  from t h1 h3 show ?thesis by (simp add: peer1_def)
qed

lemma genRid_out: "out (snd (genRid now ri cb s)) = out s"
  by (simp add: genRid_eq)

lemma lookup_iteratee_throws:
  "lookup_iteratee now k pk peer s = (Some TypeError, snd (genRid now peer (LookupClosure k peer pk) s))"
  by (simp add: lookup_iteratee_def genRid_eq send_nowhere)

lemma publish_iteratee_throws:
  "publish_iteratee now k sv peer s = (Some TypeError, snd (genRid now peer (PublishClosure k) s))"
  by (simp add: publish_iteratee_def genRid_eq send_nowhere)

lemma launch_lookup_throws:
  "eachLimit_launch PUBLIC_ASYNC_LIMIT (lookup_iteratee now k pk) (p # ps) s
     = (Some TypeError, snd (genRid now p (LookupClosure k p pk) s))"
  by (simp add: PUBLIC_ASYNC_LIMIT_def lookup_iteratee_throws)

lemma launch_publish_throws:
  "eachLimit_launch PUBLIC_ASYNC_LIMIT (publish_iteratee now k sv) (p # ps) s
     = (Some TypeError, snd (genRid now p (PublishClosure k) s))"
  by (simp add: PUBLIC_ASYNC_LIMIT_def publish_iteratee_throws)

lemma toHex_abcd: "toHex [171, 205] = ''abcd''"
  by (simp add: toHex_def hex_digit_def)

lemma publish_without_set:
  "peersVarsMap s (toHex (sv_publicKey sv)) = None \<Longrightarrow>
   publish now sv cb s = (None, s\<lparr>varsMap := (varsMap s)(toHex (sv_publicKey sv) \<mapsto> sv)\<rparr>)"
  by (simp add: publish_def Let_def)

lemma publish_empty_set:
  "peersVarsMap s (toHex (sv_publicKey sv)) = Some [] \<Longrightarrow>
   publish now sv cb s =
     publish_done [] (nextFrame s) cb
       (s\<lparr>varsMap := (varsMap s)(toHex (sv_publicKey sv) \<mapsto> sv),
          frames := (frames s)(nextFrame s := \<lparr>f_newPeers = [], f_latest = Prim JNull, f_errors = 0\<rparr>),
          nextFrame := nextFrame s + 1\<rparr>)"
  by (simp add: publish_def Let_def)

lemma publish_nonempty_set:
  "peersVarsMap s (toHex (sv_publicKey sv)) = Some (p # ps) \<Longrightarrow>
   publish now sv cb s =
     (Some TypeError,
      snd (genRid now p (PublishClosure (nextFrame s))
       (s\<lparr>varsMap := (varsMap s)(toHex (sv_publicKey sv) \<mapsto> sv),
          frames := (frames s)(nextFrame s := \<lparr>f_newPeers = [], f_latest = Prim JNull, f_errors = 0\<rparr>),
          nextFrame := nextFrame s + 1\<rparr>)))"
  by (simp add: publish_def Let_def launch_publish_throws del: eachLimit_launch.simps)

lemma call_user_listener_calls:
  "listener_calls (out (snd (call_user f args s))) = listener_calls (out s)"
  by (simp add: call_user_def listener_calls_def split: jsval.splits)

lemma publish_done_listener_calls:
  "listener_calls (out (snd (publish_done ps k cb s))) = listener_calls (out s)"
  by (simp add: publish_done_def call_user_listener_calls)

lemma publish_listener_calls:
  "listener_calls (out (snd (publish now sv cb s))) = listener_calls (out s)"
proof (cases "peersVarsMap s (toHex (sv_publicKey sv))")
  case None
  then show ?thesis by (simp add: publish_without_set)
next
  case (Some l)
  show ?thesis
  proof (cases l)
    case Nil
    with Some show ?thesis by (simp add: publish_empty_set publish_done_listener_calls)
  next
    case (Cons p ps)
    with Some show ?thesis by (simp add: publish_nonempty_set genRid_out)
  qed
qed

lemma call_user_varsMap: "varsMap (snd (call_user f args s)) = varsMap s"
  by (simp add: call_user_def split: jsval.splits)

lemma publish_stores:
  "varsMap (snd (publish now sv cb s)) (toHex (sv_publicKey sv)) = Some sv"
proof (cases "peersVarsMap s (toHex (sv_publicKey sv))")
  case None
  then show ?thesis by (simp add: publish_without_set)
next
  case (Some l)
  show ?thesis
  proof (cases l)
    case Nil
    with Some show ?thesis by (simp add: publish_empty_set publish_done_def call_user_varsMap)
  next
    case (Cons p ps)
    with Some show ?thesis by (simp add: publish_nonempty_set genRid_eq)
  qed
qed

lemma holding_eq:
  "publish 0 held_var JUndefined (new_engine 0)
     = (None, (new_engine 0)\<lparr>varsMap := [''abcd'' \<mapsto> held_var]\<rparr>)"
proof -
  have "peersVarsMap (new_engine 0 :: closure engine) (toHex (sv_publicKey held_var)) = None"
    by (simp add: new_engine_def)
  from publish_without_set [OF this, of 0 JUndefined]
  show ?thesis by (simp add: held_var_def toHex_abcd new_engine_def)
qed

text \<open>
  C3, as the claim states it, fails: an engine that holds a value for the key \<open>ab cd\<close>
  answers a GET request for that key with the error response, not with the value.
\<close>

theorem get_request_answered_with_error:
  "varsMap (snd (publish 0 held_var JUndefined (new_engine 0))) ''abcd'' = Some held_var
   \<and> out (snd (handleMessage silent_call
                  (Arr [Prim (JNum 2), Prim (JNum 5), Buf [171, 205]]) peer1
                  (snd (publish 0 held_var JUndefined (new_engine 0)))))
       = [SocketSend [Prim (JNum (-1)), Prim (JNum 5), Prim (JStr ''Unknown request type'')]
                     (JNum 4000) (JStr ''10.0.0.1'')]"
proof -
  let ?s = "(new_engine 0 :: closure engine)\<lparr>varsMap := [''abcd'' \<mapsto> held_var]\<rparr>"
  have r: "requestTypesMap ?s 2 = None"
    by (simp add: new_engine_def MSG_TYPE_PING_def)
  have o: "out ?s = []" by (simp add: new_engine_def)
  have "handleMessage silent_call (Arr (Prim (JNum 2) # Prim (JNum 5) # [Buf [171, 205]])) peer1 ?s
          = (None, ?s\<lparr>out := out ?s @ [SocketSend [Prim (JNum (-1)), Prim (JNum 5),
                                                    Prim (JStr ''Unknown request type'')]
                                                   (port peer1) (address peer1)]\<rparr>)"
    by (rule request_without_handler [OF _ _ r]) simp_all
  then show ?thesis by (simp add: holding_eq o peer1_def)
qed

section \<open>Properties of connect\<close>

lemma connect_eq:
  "connect now a p cb s =
     (None,
      s\<lparr>nextRid := (if nextRid s + 1 > RID_MAX then 0 else nextRid s + 1),
        rids := (rids s)(nextRid s \<mapsto>
                  \<lparr>p_rinfo = parseRinfo a p,
                   p_callback = ConnectClosure (parseRinfo a p) (if cb = JUndefined then p else cb),
                   p_timeout = nextTimer s\<rparr>),
        timers := (timers s)(nextTimer s \<mapsto>
                  (nextRid s, ConnectClosure (parseRinfo a p) (if cb = JUndefined then p else cb))),
        nextTimer := nextTimer s + 1,
        out := out s @ [SocketSend [Prim (JNum MSG_TYPE_PING), Prim (JNum (nextRid s))]
                                   (port (parseRinfo a p)) (address (parseRinfo a p))]\<rparr>)"
  by (simp add: connect_def Let_def genRid_eq send_to_peer del: parseRinfo.simps)

lemma connect_closure_ok:
  "connect_closure tostr ri (JFun h) None data s =
     (Inr (Prim JUndefined),
      (addPeer tostr ri s)\<lparr>out := out (addPeer tostr ri s) @ [Call h [AVal (Prim JNull), data_arg data, APeer ri]]\<rparr>)"
  by (simp add: connect_closure_def call_user_def Let_def)

lemma connect_closure_err:
  "connect_closure tostr ri (JFun h) (Some e) data s =
     (Inr (Prim JUndefined),
      (removePeer tostr ri s)\<lparr>out := out (removePeer tostr ri s) @ [Call h [AVal (Prim JNull), data_arg data, APeer ri]]\<rparr>)"
  by (simp add: connect_closure_def call_user_def Let_def)

lemma addPeer_present: "peersMap (addPeer tostr ri s) (peer_key tostr ri) \<noteq> None"
  by (simp add: addPeer_def Let_def)

lemma removePeer_absent: "peersMap (removePeer tostr ri s) (peer_key tostr ri) = None"
  by (simp add: removePeer_def Let_def)

lemma addPeer_out: "out (addPeer tostr ri s) = out s"
  by (simp add: addPeer_def Let_def)

lemma removePeer_out: "out (removePeer tostr ri s) = out s"
  by (simp add: removePeer_def Let_def)

lemma connect_pending:
  "getRidCallback (JNum (nextRid s)) origin (snd (connect now a p cb s))
     = (if rinfoEqual (parseRinfo a p) origin
        then Some (nextRid s,
                   \<lparr>p_rinfo = parseRinfo a p,
                    p_callback = ConnectClosure (parseRinfo a p) (if cb = JUndefined then p else cb),
                    p_timeout = nextTimer s\<rparr>)
        else None)"
  by (simp add: connect_eq getRidCallback_def del: parseRinfo.simps)

lemma connect_timer:
  "timers (snd (connect now a p cb s)) (nextTimer s)
     = Some (nextRid s, ConnectClosure (parseRinfo a p) (if cb = JUndefined then p else cb))"
  by (simp add: connect_eq del: parseRinfo.simps)

lemma connect_response_eq:
  assumes "(if cb = JUndefined then p else cb) = JFun h"
    and "rinfoEqual (parseRinfo a p) origin"
  shows "handleResponse (call_closure tostr sg host) data (JNum (nextRid s)) origin
           (snd (connect now a p cb s))
      = (None, (addPeer tostr (parseRinfo a p) (snd (connect now a p cb s)))
           \<lparr>out := out (snd (connect now a p cb s))
                    @ [Call h [AVal (Prim JNull), AVal (Arr data), APeer (parseRinfo a p)]],
             timers := (timers (addPeer tostr (parseRinfo a p) (snd (connect now a p cb s))))
                         (nextTimer s := None),
             rids := (rids (addPeer tostr (parseRinfo a p) (snd (connect now a p cb s))))
                         (nextRid s := None)\<rparr>)"
  using assms
  by (simp add: handleResponse_def connect_pending rid_callback_def call_closure_def
      connect_closure_ok data_arg_def addPeer_out del: parseRinfo.simps)

lemma connect_error_eq:
  assumes "(if cb = JUndefined then p else cb) = JFun h"
    and "rinfoEqual (parseRinfo a p) origin"
  shows "handleErrorResponse (call_closure tostr sg host) data code (JNum (nextRid s)) origin
           (snd (connect now a p cb s))
      = (None, (removePeer tostr (parseRinfo a p) (snd (connect now a p cb s)))
           \<lparr>out := out (snd (connect now a p cb s))
                    @ [Call h [AVal (Prim JNull), AVal (Arr (tl data)), APeer (parseRinfo a p)]],
             timers := (timers (removePeer tostr (parseRinfo a p) (snd (connect now a p cb s))))
                         (nextTimer s := None),
             rids := (rids (removePeer tostr (parseRinfo a p) (snd (connect now a p cb s))))
                         (nextRid s := None)\<rparr>)"
  using assms
  by (simp add: handleErrorResponse_def connect_pending rid_callback_def call_closure_def
      connect_closure_err data_arg_def removePeer_out del: parseRinfo.simps)

lemma connect_timeout_eq:
  assumes "(if cb = JUndefined then p else cb) = JFun h"
  shows "fire_timer (call_closure tostr sg host) (nextTimer s) (snd (connect now a p cb s))
      = (None, (removePeer tostr (parseRinfo a p)
                  ((snd (connect now a p cb s))
                     \<lparr>timers := (timers (snd (connect now a p cb s)))(nextTimer s := None),
                       rids := (rids (snd (connect now a p cb s)))(nextRid s := None)\<rparr>))
           \<lparr>out := out (snd (connect now a p cb s))
                    @ [Call h [AVal (Prim JNull), AVal (Prim JUndefined), APeer (parseRinfo a p)]]\<rparr>)"
  using assms
  by (simp add: fire_timer_def connect_timer call_closure_def connect_closure_err
      data_arg_def removePeer_out del: parseRinfo.simps)

text \<open>
  C7, as the code has it. \<open>connect\<close> with a callback function sends a PING to the parsed
  peer. A response from that peer adds the peer to \<open>_peersMap\<close>; an error response or
  the timeout leaves it absent from \<open>_peersMap\<close>. In each of the three cases the
  callback is called once, with \<open>null\<close> as its error argument, then the payload
  (\<open>undefined\<close> after a timeout) and the peer record: the error itself is not handed
  to the caller.
\<close>

theorem connect_outcomes:
  assumes "(if cb = JUndefined then p else cb) = JFun h"
    and "rinfoEqual (parseRinfo a p) origin"
  shows
    "fst (connect now a p cb s) = None
     \<and> out (snd (connect now a p cb s))
         = out s @ [SocketSend [Prim (JNum MSG_TYPE_PING), Prim (JNum (nextRid s))]
                               (port (parseRinfo a p)) (address (parseRinfo a p))]
     \<and> fst (handleResponse (call_closure tostr sg host) data (JNum (nextRid s)) origin
              (snd (connect now a p cb s))) = None
     \<and> peersMap (snd (handleResponse (call_closure tostr sg host) data (JNum (nextRid s)) origin
                        (snd (connect now a p cb s))))
          (peer_key tostr (parseRinfo a p)) \<noteq> None
     \<and> out (snd (handleResponse (call_closure tostr sg host) data (JNum (nextRid s)) origin
                   (snd (connect now a p cb s))))
         = out (snd (connect now a p cb s))
           @ [Call h [AVal (Prim JNull), AVal (Arr data), APeer (parseRinfo a p)]]
     \<and> fst (handleErrorResponse (call_closure tostr sg host) data code (JNum (nextRid s)) origin
              (snd (connect now a p cb s))) = None
     \<and> peersMap (snd (handleErrorResponse (call_closure tostr sg host) data code (JNum (nextRid s))
                        origin (snd (connect now a p cb s))))
          (peer_key tostr (parseRinfo a p)) = None
     \<and> out (snd (handleErrorResponse (call_closure tostr sg host) data code (JNum (nextRid s)) origin
                   (snd (connect now a p cb s))))
         = out (snd (connect now a p cb s))
           @ [Call h [AVal (Prim JNull), AVal (Arr (tl data)), APeer (parseRinfo a p)]]
     \<and> fst (fire_timer (call_closure tostr sg host) (nextTimer s) (snd (connect now a p cb s))) = None
     \<and> peersMap (snd (fire_timer (call_closure tostr sg host) (nextTimer s)
                        (snd (connect now a p cb s))))
          (peer_key tostr (parseRinfo a p)) = None
     \<and> out (snd (fire_timer (call_closure tostr sg host) (nextTimer s) (snd (connect now a p cb s))))
         = out (snd (connect now a p cb s))
           @ [Call h [AVal (Prim JNull), AVal (Prim JUndefined), APeer (parseRinfo a p)]]"
proof -
  note ok = connect_response_eq [OF assms, of tostr sg host data s now]
  note er = connect_error_eq [OF assms, of tostr sg host data code s now]
  note ti = connect_timeout_eq [OF assms(1), of tostr sg host s now a]
  have c1: "fst (connect now a p cb s) = None" by (simp add: connect_eq)
  have c2: "out (snd (connect now a p cb s))
         = out s @ [SocketSend [Prim (JNum MSG_TYPE_PING), Prim (JNum (nextRid s))]
                               (port (parseRinfo a p)) (address (parseRinfo a p))]"
    by (simp add: connect_eq del: parseRinfo.simps)
  have p_ok: "peersMap (snd (handleResponse (call_closure tostr sg host) data (JNum (nextRid s)) origin
                        (snd (connect now a p cb s))))
          (peer_key tostr (parseRinfo a p)) \<noteq> None"
    by (simp add: ok addPeer_present del: parseRinfo.simps)
  have p_er: "peersMap (snd (handleErrorResponse (call_closure tostr sg host) data code (JNum (nextRid s))
                        origin (snd (connect now a p cb s))))
          (peer_key tostr (parseRinfo a p)) = None"
    by (simp add: er removePeer_absent del: parseRinfo.simps)
  have p_ti: "peersMap (snd (fire_timer (call_closure tostr sg host) (nextTimer s)
                        (snd (connect now a p cb s))))
          (peer_key tostr (parseRinfo a p)) = None"
    by (simp add: ti removePeer_absent del: parseRinfo.simps)
  show ?thesis
    by (intro conjI c1 c2 p_ok p_er p_ti) (simp_all add: ok er ti del: parseRinfo.simps)
qed

lemma pinging_eq:
  "pinging = (new_engine 0)\<lparr>nextRid := 1,
      rids := [0 \<mapsto> \<lparr>p_rinfo = peer1, p_callback = ConnectClosure peer1 (JFun 3), p_timeout = 0\<rparr>],
      timers := [0 \<mapsto> (0, ConnectClosure peer1 (JFun 3))], nextTimer := 1,
      out := [SocketSend [Prim (JNum 1), Prim (JNum 0)] (JNum 4000) (JStr ''10.0.0.1'')]\<rparr>"
  by (simp add: pinging_def connect_eq new_engine_def RID_MAX_def peer1_def MSG_TYPE_PING_def)

lemma peer1_key: "peer_key example_tostr peer1 = ''10.0.0.1:4000''"
  by (simp add: peer_key_def example_tostr_def peer1_def)

lemma parse_peer1: "parseRinfo (AString ''10.0.0.1'') (JNum 4000) = peer1"
  by (simp add: peer1_def)

theorem connect_outcomes_witness:
  "(if JFun 3 = JUndefined then JNum 4000 else JFun 3) = JFun 3
   \<and> rinfoEqual (parseRinfo (AString ''10.0.0.1'') (JNum 4000)) peer1
   \<and> out pinging = [SocketSend [Prim (JNum 1), Prim (JNum 0)] (JNum 4000) (JStr ''10.0.0.1'')]
   \<and> peersMap (snd (handleResponse example_call [] (JNum 0) peer1 pinging)) ''10.0.0.1:4000'' \<noteq> None
   \<and> out (snd (handleResponse example_call [] (JNum 0) peer1 pinging))
       = [SocketSend [Prim (JNum 1), Prim (JNum 0)] (JNum 4000) (JStr ''10.0.0.1''),
          Call 3 [AVal (Prim JNull), AVal (Arr []), APeer peer1]]
   \<and> peersMap (snd (fire_timer example_call 0 pinging)) ''10.0.0.1:4000'' = None
   \<and> out (snd (fire_timer example_call 0 pinging))
       = [SocketSend [Prim (JNum 1), Prim (JNum 0)] (JNum 4000) (JStr ''10.0.0.1''),
          Call 3 [AVal (Prim JNull), AVal (Prim JUndefined), APeer peer1]]"
proof -
  have h1: "(if JFun 3 = JUndefined then JNum 4000 else JFun 3) = JFun 3" by simp
  have h2: "rinfoEqual (parseRinfo (AString ''10.0.0.1'') (JNum 4000)) peer1"
    by (simp only: parse_peer1 peer1_self)
  have n: "nextRid (new_engine 0 :: closure engine) = 0" "nextTimer (new_engine 0 :: closure engine) = 0"
    by (simp_all add: new_engine_def)
  have o: "out pinging = [SocketSend [Prim (JNum 1), Prim (JNum 0)] (JNum 4000) (JStr ''10.0.0.1'')]"
    by (simp add: pinging_eq)
  note t = connect_outcomes [OF h1 h2, of 0 "new_engine 0" example_tostr example_sig
         "\<lambda>h err data ri s. (Inr (Prim JUndefined), s)" "[]" "JNum (-1)",
         unfolded parse_peer1 n peer1_key, folded pinging_def example_call_def,
         THEN conjunct2, THEN conjunct2]
  from t h1 h2 o show ?thesis
    by (simp del: parseRinfo.simps)
qed

text \<open>
  C7, as the claim states it, fails: when the peer answers the PING with the error
  response \<open>[-2, 0, 'refused']\<close>, the caller's callback receives \<open>null\<close> in the place
  of the error.
\<close>

theorem connect_hides_error_from_caller:
  "out (snd (handleErrorResponse example_call [Prim (JStr ''refused'')] (JNum (-2)) (JNum 0) peer1 pinging))
     = [SocketSend [Prim (JNum 1), Prim (JNum 0)] (JNum 4000) (JStr ''10.0.0.1''),
        Call 3 [AVal (Prim JNull), AVal (Arr []), APeer peer1]]"
proof -
  have h1: "(if JFun 3 = JUndefined then JNum 4000 else JFun 3) = JFun 3" by simp
  have h2: "rinfoEqual (parseRinfo (AString ''10.0.0.1'') (JNum 4000)) peer1"
    by (simp only: parse_peer1 peer1_self)
  have n: "nextRid (new_engine 0 :: closure engine) = 0" "nextTimer (new_engine 0 :: closure engine) = 0"
    by (simp_all add: new_engine_def)
  have o: "out pinging = [SocketSend [Prim (JNum 1), Prim (JNum 0)] (JNum 4000) (JStr ''10.0.0.1'')]"
    by (simp add: pinging_eq)
  from connect_error_eq [OF h1 h2, of example_tostr example_sig
         "\<lambda>h err data ri s. (Inr (Prim JUndefined), s)" "[Prim (JStr ''refused'')]" "JNum (-2)"
         "new_engine 0" 0]
  show ?thesis
    by (simp add: n o parse_peer1 del: parseRinfo.simps flip: pinging_def example_call_def)
qed

section \<open>Properties of lookup and publish\<close>

lemma lookup_nonempty:
  "(case peersVarsMap s (toHex pk) of None \<Rightarrow> peers s | Some l \<Rightarrow> l) = p # ps \<Longrightarrow>
   lookup now pk cur cb s =
     (Some TypeError,
      snd (genRid now p (LookupClosure (nextFrame s) p pk)
        (s\<lparr>frames := (frames s)
               (nextFrame s := \<lparr>f_newPeers = [],
                                f_latest = (if truthy_m cur then cur else Prim JNull),
                                f_errors = 0\<rparr>),
           nextFrame := nextFrame s + 1\<rparr>)))"
  by (simp add: lookup_def Let_def launch_lookup_throws del: eachLimit_launch.simps)

lemma lookup_empty:
  "(case peersVarsMap s (toHex pk) of None \<Rightarrow> peers s | Some l \<Rightarrow> l) = [] \<Longrightarrow>
   lookup now pk cur cb s =
     lookup_done (toHex pk) (nextFrame s) cb
        (s\<lparr>frames := (frames s)
               (nextFrame s := \<lparr>f_newPeers = [],
                                f_latest = (if truthy_m cur then cur else Prim JNull),
                                f_errors = 0\<rparr>),
           nextFrame := nextFrame s + 1\<rparr>)"
  by (simp add: lookup_def Let_def)

lemma pinging_fields:
  "peers pinging = []" "peersVarsMap pinging = Map.empty" "peersMap pinging = Map.empty"
  "out pinging = [SocketSend [Prim (JNum 1), Prim (JNum 0)] (JNum 4000) (JStr ''10.0.0.1'')]"
  by (simp_all add: pinging_eq new_engine_fields)

lemma answered_eq:
  "handleResponse example_call [] (JNum 0) peer1 pinging
     = (None, (addPeer example_tostr peer1 pinging)
           \<lparr>out := out pinging @ [Call 3 [AVal (Prim JNull), AVal (Arr []), APeer peer1]],
             timers := (timers (addPeer example_tostr peer1 pinging))(0 := None),
             rids := (rids (addPeer example_tostr peer1 pinging))(0 := None)\<rparr>)"
proof -
  have h1: "(if JFun 3 = JUndefined then JNum 4000 else JFun 3) = JFun 3" by simp
  have h2: "rinfoEqual (parseRinfo (AString ''10.0.0.1'') (JNum 4000)) peer1"
    by (simp only: parse_peer1 peer1_self)
  have n: "nextRid (new_engine 0 :: closure engine) = 0" "nextTimer (new_engine 0 :: closure engine) = 0"
    by (simp_all add: new_engine_def)
  show ?thesis
    by (rule connect_response_eq [OF h1 h2, of example_tostr example_sig
         "\<lambda>h err data ri s. (Inr (Prim JUndefined), s)" "[]" "new_engine 0" 0,
         unfolded parse_peer1 n, folded pinging_def example_call_def])
qed

text \<open>
  C4. The claim: \<open>lookup\<close> sends a GET request to each candidate peer, of the narrowed
  set of the key or else of all known peers. The code sends none. With a candidate,
  \<open>lookup\<close> throws a TypeError at the first one, before any datagram is sent (the
  \<open>send\<close> in its iteratee names no destination), be the candidates the narrowed set
  or \<open>_peers\<close>. And a peer that \<open>connect\<close> has just registered is no candidate, since
  \<open>_addPeer\<close> does not write \<open>_peers\<close>: the \<open>lookup\<close> that follows sends nothing and
  calls back with \<open>null\<close>.
\<close>

theorem lookup_asks_no_peer:
  "fst (lookup now pk cur cb (s\<lparr>peersVarsMap := (peersVarsMap s)(toHex pk \<mapsto> p # ps)\<rparr>))
     = Some TypeError
   \<and> out (snd (lookup now pk cur cb (s\<lparr>peersVarsMap := (peersVarsMap s)(toHex pk \<mapsto> p # ps)\<rparr>)))
     = out s
   \<and> fst (lookup now pk cur cb
            (s\<lparr>peersVarsMap := (peersVarsMap s)(toHex pk := None), peers := p # ps\<rparr>))
     = Some TypeError
   \<and> out (snd (lookup now pk cur cb
                  (s\<lparr>peersVarsMap := (peersVarsMap s)(toHex pk := None), peers := p # ps\<rparr>)))
     = out s
   \<and> peersMap (snd (handleResponse example_call [] (JNum 0) peer1 pinging)) ''10.0.0.1:4000'' \<noteq> None
   \<and> out (snd (lookup 0 [171, 205] (Prim JNull) (JFun 4)
                  (snd (handleResponse example_call [] (JNum 0) peer1 pinging))))
     = [SocketSend [Prim (JNum 1), Prim (JNum 0)] (JNum 4000) (JStr ''10.0.0.1''),
        Call 3 [AVal (Prim JNull), AVal (Arr []), APeer peer1],
        Call 4 [AVal (Prim JNull), AVal (Prim JNull)]]"
proof -
  let ?s1 = "s\<lparr>peersVarsMap := (peersVarsMap s)(toHex pk \<mapsto> p # ps)\<rparr>"
  let ?s2 = "s\<lparr>peersVarsMap := (peersVarsMap s)(toHex pk := None), peers := p # ps\<rparr>"
  have "(case peersVarsMap ?s1 (toHex pk) of None \<Rightarrow> peers ?s1 | Some l \<Rightarrow> l) = p # ps" by simp
  note n1 = lookup_nonempty [OF this, of now cur cb]
  have "(case peersVarsMap ?s2 (toHex pk) of None \<Rightarrow> peers ?s2 | Some l \<Rightarrow> l) = p # ps" by simp
  note n2 = lookup_nonempty [OF this, of now cur cb]
  have a: "fst (lookup now pk cur cb ?s1) = Some TypeError" by (simp add: n1)
  have b: "out (snd (lookup now pk cur cb ?s1)) = out s" by (simp add: n1 genRid_out)
  have c: "fst (lookup now pk cur cb ?s2) = Some TypeError" by (simp add: n2)
  have d: "out (snd (lookup now pk cur cb ?s2)) = out s" by (simp add: n2 genRid_out)
  let ?k = "snd (handleResponse example_call [] (JNum 0) peer1 pinging)"
  have e: "peersMap ?k ''10.0.0.1:4000'' \<noteq> None"
    using addPeer_present [of example_tostr peer1 pinging]
    by (simp add: answered_eq peer1_key)
  have pk: "peers ?k = []" "peersVarsMap ?k (toHex [171, 205]) = None"
    by (simp_all add: answered_eq addPeer_def Let_def pinging_fields)
  then have "(case peersVarsMap ?k (toHex [171, 205]) of None \<Rightarrow> peers ?k | Some l \<Rightarrow> l) = []"
    by simp
  note l = lookup_empty [OF this, of 0 "Prim JNull" "JFun 4"]
  have ok: "out ?k = [SocketSend [Prim (JNum 1), Prim (JNum 0)] (JNum 4000) (JStr ''10.0.0.1''),
                       Call 3 [AVal (Prim JNull), AVal (Arr []), APeer peer1]]"
    by (simp add: answered_eq pinging_fields)
  have f: "out (snd (lookup 0 [171, 205] (Prim JNull) (JFun 4) ?k))
     = [SocketSend [Prim (JNum 1), Prim (JNum 0)] (JNum 4000) (JStr ''10.0.0.1''),
        Call 3 [AVal (Prim JNull), AVal (Arr []), APeer peer1],
        Call 4 [AVal (Prim JNull), AVal (Prim JNull)]]"
    by (simp add: l lookup_done_def Let_def call_user_def ok)
  from a b c d e f show ?thesis by (intro conjI)
qed

text \<open>
  C5. The claim: without a narrowed peer set for the key, \<open>publish\<close> sends nothing and
  calls the callback at once with an absent count. The code stores the value and returns
  without ever calling the callback: on a new engine the trace stays empty. (With a
  narrowed set that is not empty it throws a TypeError before any datagram is sent, for
  the reason given under C4.)
\<close>

theorem publish_without_peer_set_never_calls_back:
  "publish now sv cb (new_engine r)
     = (None, (new_engine r)\<lparr>varsMap := [toHex (sv_publicKey sv) \<mapsto> sv]\<rparr>)
   \<and> out ((new_engine r :: closure engine)\<lparr>varsMap := [toHex (sv_publicKey sv) \<mapsto> sv]\<rparr>) = []
   \<and> fst (publish now sv cb (s\<lparr>peersVarsMap := (peersVarsMap s)(toHex (sv_publicKey sv) \<mapsto> p # ps)\<rparr>))
       = Some TypeError
   \<and> out (snd (publish now sv cb
                  (s\<lparr>peersVarsMap := (peersVarsMap s)(toHex (sv_publicKey sv) \<mapsto> p # ps)\<rparr>)))
       = out s"
proof -
  have "peersVarsMap (new_engine r :: closure engine) (toHex (sv_publicKey sv)) = None"
    by (simp add: new_engine_def)
  from publish_without_set [OF this, of now cb]
  have a: "publish now sv cb (new_engine r)
     = (None, (new_engine r)\<lparr>varsMap := [toHex (sv_publicKey sv) \<mapsto> sv]\<rparr>)"
    by (simp add: new_engine_def)
  have b: "out ((new_engine r :: closure engine)\<lparr>varsMap := [toHex (sv_publicKey sv) \<mapsto> sv]\<rparr>) = []"
    by (simp add: new_engine_def)
  let ?s = "s\<lparr>peersVarsMap := (peersVarsMap s)(toHex (sv_publicKey sv) \<mapsto> p # ps)\<rparr>"
  have "peersVarsMap ?s (toHex (sv_publicKey sv)) = Some (p # ps)" by simp
  note n = publish_nonempty_set [OF this, of now cb]
  have c: "fst (publish now sv cb ?s) = Some TypeError" by (simp add: n)
  have d: "out (snd (publish now sv cb ?s)) = out s" by (simp add: n genRid_out)
  from a b c d show ?thesis by (intro conjI)
qed

lemma request_without_handler_varsMap:
  "0 < t \<Longrightarrow> is_number rid \<Longrightarrow> requestTypesMap s t = None \<Longrightarrow>
   varsMap (snd (handleMessage call (Arr (Prim (JNum t) # Prim rid # payload)) ri s)) = varsMap s
   \<and> listener_calls (out (snd (handleMessage call (Arr (Prim (JNum t) # Prim rid # payload)) ri s)))
     = listener_calls (out s)"
  by (simp add: request_without_handler listener_calls_def)

lemma onPublish_fields:
  "out (onPublish pk l s) = out s" "varsMap (onPublish pk l s) = varsMap s"
  "requestTypesMap (onPublish pk l s) = requestTypesMap s"
  "peersVarsMap (onPublish pk l s) = peersVarsMap s"
  "listeners (onPublish pk l s) (toHex pk)
     = Some ((case listeners s (toHex pk) of None \<Rightarrow> [] | Some hs \<Rightarrow> hs) @ [l])"
  by (simp_all add: onPublish_def on_def)

text \<open>
  C6, as the code has it. \<open>onPublish(K, listener)\<close> appends the listener to those of the
  event named by the hex form of \<open>K\<close>, but nothing raises that event. A \<open>publish\<close> of a
  value for \<open>K\<close> stores the value, whatever was stored before, and calls no listener; an
  inbound PUBLISH request calls no listener and stores nothing.
\<close>

theorem publish_raises_no_event:
  "listeners (onPublish (sv_publicKey sv) l s) (toHex (sv_publicKey sv))
     = Some ((case listeners s (toHex (sv_publicKey sv)) of None \<Rightarrow> [] | Some hs \<Rightarrow> hs) @ [l])
   \<and> listener_calls (out (snd (publish now sv cb (onPublish (sv_publicKey sv) l s))))
     = listener_calls (out s)
   \<and> varsMap (snd (publish now sv cb (onPublish (sv_publicKey sv) l s))) (toHex (sv_publicKey sv))
     = Some sv
   \<and> (requestTypesMap s = [MSG_TYPE_PING \<mapsto> PingHandler] \<and> is_number rid \<longrightarrow>
        listener_calls (out (snd (handleMessage call
            (Arr (Prim (JNum MSG_TYPE_PUBLISH) # Prim rid # payload)) ri
            (onPublish (sv_publicKey sv) l s)))) = listener_calls (out s)
        \<and> varsMap (snd (handleMessage call
            (Arr (Prim (JNum MSG_TYPE_PUBLISH) # Prim rid # payload)) ri
            (onPublish (sv_publicKey sv) l s))) = varsMap s)"
proof -
  let ?s = "onPublish (sv_publicKey sv) l s"
  have a: "listeners ?s (toHex (sv_publicKey sv))
     = Some ((case listeners s (toHex (sv_publicKey sv)) of None \<Rightarrow> [] | Some hs \<Rightarrow> hs) @ [l])"
    by (rule onPublish_fields)
  have b: "listener_calls (out (snd (publish now sv cb ?s))) = listener_calls (out s)"
    by (simp add: publish_listener_calls onPublish_fields)
  have c: "varsMap (snd (publish now sv cb ?s)) (toHex (sv_publicKey sv)) = Some sv"
    by (rule publish_stores)
  have d: "listener_calls (out (snd (handleMessage call
            (Arr (Prim (JNum MSG_TYPE_PUBLISH) # Prim rid # payload)) ri ?s))) = listener_calls (out s)
        \<and> varsMap (snd (handleMessage call
            (Arr (Prim (JNum MSG_TYPE_PUBLISH) # Prim rid # payload)) ri ?s)) = varsMap s"
    if h: "requestTypesMap s = [MSG_TYPE_PING \<mapsto> PingHandler] \<and> is_number rid"
  proof -
    have pos: "0 < MSG_TYPE_PUBLISH" and np: "MSG_TYPE_PUBLISH \<noteq> MSG_TYPE_PING"
      using get_publish_positive [of MSG_TYPE_PUBLISH] by simp_all
    from np h have "requestTypesMap ?s MSG_TYPE_PUBLISH = None"
      by (simp add: onPublish_fields)
    from request_without_handler_varsMap [OF pos _ this] h show ?thesis
      by (simp add: onPublish_fields)
  qed
  show ?thesis
  proof (intro conjI)
    show "requestTypesMap s = [MSG_TYPE_PING \<mapsto> PingHandler] \<and> is_number rid \<longrightarrow>
        listener_calls (out (snd (handleMessage call
            (Arr (Prim (JNum MSG_TYPE_PUBLISH) # Prim rid # payload)) ri ?s))) = listener_calls (out s)
        \<and> varsMap (snd (handleMessage call
            (Arr (Prim (JNum MSG_TYPE_PUBLISH) # Prim rid # payload)) ri ?s)) = varsMap s"
      by (rule impI) (rule d)
  qed (rule a b c)+
qed

lemma held_var_key: "sv_publicKey held_var = [171, 205]" "toHex (sv_publicKey held_var) = ''abcd''"
  by (simp_all add: held_var_def toHex_abcd)

lemma subscribed_eq:
  "onPublish [171, 205] 9 (new_engine 0) = (new_engine 0)\<lparr>listeners := [''abcd'' \<mapsto> [9]]\<rparr>"
  by (simp add: onPublish_def on_def toHex_abcd new_engine_fields)

theorem publish_raises_no_event_witness:
  "requestTypesMap (new_engine 0 :: closure engine) = [MSG_TYPE_PING \<mapsto> PingHandler]
   \<and> is_number (JNum 5)
   \<and> listeners (onPublish [171, 205] 9 (new_engine 0 :: closure engine)) ''abcd'' = Some [9]
   \<and> listener_calls (out (snd (publish 0 held_var (JFun 3) (onPublish [171, 205] 9 (new_engine 0))))) = []
   \<and> varsMap (snd (publish 0 held_var (JFun 3) (onPublish [171, 205] 9 (new_engine 0)))) ''abcd''
       = Some held_var
   \<and> listener_calls (out (snd (handleMessage silent_call (Arr [Prim (JNum 3), Prim (JNum 5), Sig 1])
          peer1 (onPublish [171, 205] 9 (new_engine 0 :: closure engine))))) = []
   \<and> varsMap (snd (handleMessage silent_call (Arr [Prim (JNum 3), Prim (JNum 5), Sig 1])
          peer1 (onPublish [171, 205] 9 (new_engine 0 :: closure engine)))) = Map.empty"
proof -
  have h1: "requestTypesMap (new_engine 0 :: closure engine) = [MSG_TYPE_PING \<mapsto> PingHandler]"
    by (simp add: new_engine_fields)
  have h2: "is_number (JNum 5)" by simp
  have l: "listeners (new_engine 0 :: closure engine) ''abcd'' = None"
    by (simp add: new_engine_fields)
  have o: "listener_calls (out (new_engine 0 :: closure engine)) = []"
    "varsMap (new_engine 0 :: closure engine) = Map.empty"
    by (simp_all add: new_engine_fields listener_calls_def)
  note t = publish_raises_no_event [of held_var 9 "new_engine 0 :: closure engine" 0
      "JFun 3" "JNum 5" silent_call "[Sig 1]" peer1,
      unfolded held_var_key toHex_abcd l o MSG_TYPE_PUBLISH_def]
  from t h1 h2 show ?thesis by simp
qed

text \<open>
  C6, as the claim states it, fails: with listener 9 registered for the key \<open>ab cd\<close>,
  publishing a value for that key stores it and leaves the trace empty, so the listener
  is not called.
\<close>

theorem publish_does_not_reach_listener:
  "listeners (onPublish [171, 205] 9 (new_engine 0 :: closure engine)) ''abcd'' = Some [9]
   \<and> varsMap (snd (publish 0 held_var (JFun 3) (onPublish [171, 205] 9 (new_engine 0)))) ''abcd''
       = Some held_var
   \<and> out (snd (publish 0 held_var (JFun 3) (onPublish [171, 205] 9 (new_engine 0)))) = []"
proof -
  let ?s = "onPublish [171, 205] 9 (new_engine 0 :: closure engine)"
  have "peersVarsMap ?s (toHex (sv_publicKey held_var)) = None"
    by (simp add: onPublish_fields new_engine_fields)
  note p = publish_without_set [OF this, of 0 "JFun 3"]
  have a: "listeners ?s ''abcd'' = Some [9]" by (simp add: subscribed_eq)
  have b: "varsMap (snd (publish 0 held_var (JFun 3) ?s)) ''abcd'' = Some held_var"
    by (simp add: p held_var_key toHex_abcd)
  have c: "out (snd (publish 0 held_var (JFun 3) ?s)) = []"
    by (simp add: p onPublish_fields new_engine_fields)
  from a b c show ?thesis by (intro conjI)
qed

end
